theory Spec2Isabelle
  imports Complex_Main "HOL-Library.Sublist"
begin

section \<open>Python values the program relies on\<close>

text \<open>
  The program is one Python module, \<^verbatim>\<open>code.py\<close>. Its state is three text files, its
  inputs are rows of two TSV tables (dictionaries of strings) and two external services
  (the review page and the emotion classifier). Strings are modelled as \<open>string\<close> over
  ASCII: \<open>str.lower\<close> maps \<open>A..Z\<close> to \<open>a..z\<close> and \<open>str.strip\<close> removes the ASCII
  characters for which \<open>str.isspace\<close> holds.
\<close>

datatype py_error = ValueError | TypeError | IndexError

datatype 'a py_result = Returns 'a | Raises py_error

definition LF :: char where
  "LF = CHR 0x0A"

definition CR :: char where
  "CR = CHR 0x0D"

definition is_space :: "char \<Rightarrow> bool" where
  "is_space c = (c \<in> set [CHR 0x09, CHR 0x0A, CHR 0x0B, CHR 0x0C, CHR 0x0D,
                            CHR 0x1C, CHR 0x1D, CHR 0x1E, CHR 0x1F, CHR 0x20])"

definition py_strip :: "string \<Rightarrow> string" where
  "py_strip s = rev (dropWhile is_space (rev (dropWhile is_space s)))"

definition to_lower :: "char \<Rightarrow> char" where
  "to_lower c =
     (case map_of (zip ''ABCDEFGHIJKLMNOPQRSTUVWXYZ'' ''abcdefghijklmnopqrstuvwxyz'') c of
        Some d \<Rightarrow> d
      | None \<Rightarrow> c)"

definition py_lower :: "string \<Rightarrow> string" where
  "py_lower s = map to_lower s"

text \<open>\<open>s.split(c)\<close> for a one-character separator: never the empty list.\<close>

fun py_split :: "char \<Rightarrow> string \<Rightarrow> string list" where
  "py_split c [] = [[]]"
| "py_split c (x # xs) =
     (if x = c then [] # py_split c xs
      else (case py_split c xs of [] \<Rightarrow> [[x]] | p # ps \<Rightarrow> (x # p) # ps))"

text \<open>\<open>s.split(c, 1)\<close>: cut at the first separator only.\<close>

definition py_split1 :: "char \<Rightarrow> string \<Rightarrow> string list" where
  "py_split1 c s =
     (if c \<in> set s then [takeWhile (\<lambda>x. x \<noteq> c) s, tl (dropWhile (\<lambda>x. x \<noteq> c) s)]
      else [s])"

fun py_join :: "string \<Rightarrow> string list \<Rightarrow> string" where
  "py_join sep [] = []"
| "py_join sep [x] = x"
| "py_join sep (x # y # ys) = x @ sep @ py_join sep (y # ys)"

text \<open>
  \<open>s.replace(old, new)\<close>: every occurrence of \<open>old\<close>, left to right, without overlap.
  For the empty \<open>old\<close> Python puts \<open>new\<close> before every character and at the end.
\<close>

function py_replace :: "string \<Rightarrow> string \<Rightarrow> string \<Rightarrow> string" where
  "py_replace old new s =
     (if s = [] then (if old = [] then new else [])
      else if old = [] then new @ hd s # py_replace old new (tl s)
      else if prefix old s then new @ py_replace old new (drop (length old) s)
      else hd s # py_replace old new (tl s))"
  by pat_completeness auto
termination
  by (relation "measure (\<lambda>(old, new, s). length s)") auto

declare py_replace.simps [simp del]

text \<open>
  Files are opened in text mode with universal newlines: on reading, \<open>\r\n\<close> and a lone
  \<open>\r\<close> arrive as \<open>\n\<close>. Iterating over the file yields its lines, each with its
  terminator.
\<close>

fun universal_newlines :: "string \<Rightarrow> string" where
  "universal_newlines [] = []"
| "universal_newlines [c] = [if c = CR then LF else c]"
| "universal_newlines (c # d # ds) =
     (if c = CR then
        (if d = LF then LF # universal_newlines ds else LF # universal_newlines (d # ds))
      else c # universal_newlines (d # ds))"

fun keepends :: "string \<Rightarrow> string list" where
  "keepends [] = []"
| "keepends (c # cs) =
     (if c = LF then [LF] # keepends cs
      else (case keepends cs of [] \<Rightarrow> [[c]] | l # ls \<Rightarrow> (c # l) # ls))"

definition file_read :: "string \<Rightarrow> string" where
  "file_read content = universal_newlines content"

definition file_lines :: "string \<Rightarrow> string list" where
  "file_lines content = keepends (universal_newlines content)"

section \<open>User State Store\<close>

text \<open>
  The three persisted files. \<open>None\<close> is a file that does not exist
  (\<open>os.path.exists\<close> is false), \<open>Some s\<close> a file holding the text \<open>s\<close>.
\<close>

record files =
  watched_file :: "string option"
  preferences_file :: "string option"
  watch_later_file :: "string option"

text \<open>\<^verbatim>\<open>read_watch_later\<close> (lines 74-82).\<close>

definition read_watch_later :: "files \<Rightarrow> string list" where
  "read_watch_later fs =
     (case watch_later_file fs of
        None \<Rightarrow> []
      | Some raw \<Rightarrow>
          (let content = py_strip (file_read raw) in
           if content \<noteq> [] then
             map py_strip (filter (\<lambda>title. py_strip title \<noteq> []) (py_split CHR '','' content))
           else []))"

text \<open>\<^verbatim>\<open>append_watch_later\<close> (lines 124-129).\<close>

definition append_watch_later :: "string \<Rightarrow> files \<Rightarrow> files" where
  "append_watch_later title fs =
     (let watch_later = read_watch_later fs @ [title]
      in fs\<lparr>watch_later_file := Some (py_join '','' watch_later)\<rparr>)"

text \<open>
  \<^verbatim>\<open>remove_watch_later\<close> (lines 132-142). The index is a Python integer; \<open>pop\<close> is only
  reached with \<open>0 <= index < len(watch_later)\<close>. The result is the returned value
  (\<open>None\<close> is Python's \<open>None\<close>) together with the files afterwards.
\<close>

definition list_pop :: "nat \<Rightarrow> 'a list \<Rightarrow> 'a list" where
  "list_pop i xs = take i xs @ drop (Suc i) xs"

definition remove_watch_later :: "int \<Rightarrow> files \<Rightarrow> string option py_result \<times> files" where
  "remove_watch_later index fs =
     (let watch_later = read_watch_later fs in
      if 0 \<le> index \<and> index < int (length watch_later) then
        (let removed = watch_later ! nat index;
             watch_later' = list_pop (nat index) watch_later
         in (Returns (Some removed), fs\<lparr>watch_later_file := Some (py_join '','' watch_later')\<rparr>))
      else (Returns None, fs))"

text \<open>
  \<^verbatim>\<open>read_watched\<close> (lines 54-71): one entry per line of the form
  \<open>number.title:review:status\<close>; any other line is skipped.
\<close>

record watched_entry =
  entry_number :: string
  entry_title :: string
  entry_review :: string
  entry_status :: string

definition read_watched_line :: "string \<Rightarrow> watched_entry list" where
  "read_watched_line raw =
     (let line = py_strip raw in
      if line \<noteq> [] then
        (let parts = py_split CHR '':'' line in
         if length parts = 3 then
           (let number_title = py_split1 CHR ''.'' (parts ! 0) in
            if length number_title = 2 then
              [\<lparr>entry_number = number_title ! 0, entry_title = number_title ! 1,
                entry_review = parts ! 1, entry_status = parts ! 2\<rparr>]
            else [])
         else [])
      else [])"

definition read_watched :: "files \<Rightarrow> watched_entry list" where
  "read_watched fs =
     (case watched_file fs of
        None \<Rightarrow> []
      | Some raw \<Rightarrow> concat (map read_watched_line (file_lines raw)))"

text \<open>\<^verbatim>\<open>read_preferences\<close> (lines 85-105) and \<^verbatim>\<open>write_preferences\<close> (lines 108-113).\<close>

record preferences =
  Genres :: "string list"
  Emotions :: "string list"
  Year :: string

definition comma_list :: "string \<Rightarrow> string list" where
  "comma_list s = map py_strip (filter (\<lambda>x. py_strip x \<noteq> []) (py_split CHR '','' s))"

definition read_preferences_line :: "preferences \<Rightarrow> string \<Rightarrow> preferences" where
  "read_preferences_line p raw =
     (let line = py_strip raw in
      if prefix ''Genres:'' line then
        p\<lparr>Genres := comma_list (py_strip (py_replace ''Genres:'' [] line))\<rparr>
      else if prefix ''Emotions:'' line then
        p\<lparr>Emotions := comma_list (py_strip (py_replace ''Emotions:'' [] line))\<rparr>
      else if prefix ''Year:'' line then
        p\<lparr>Year := py_strip (py_replace ''Year:'' [] line)\<rparr>
      else p)"

definition read_preferences :: "files \<Rightarrow> preferences" where
  "read_preferences fs =
     (let p0 = \<lparr>Genres = [], Emotions = [], Year = []\<rparr> in
      case preferences_file fs of
        None \<Rightarrow> p0
      | Some raw \<Rightarrow> foldl read_preferences_line p0 (file_lines raw))"

definition write_preferences :: "preferences \<Rightarrow> files \<Rightarrow> files" where
  "write_preferences p fs =
     fs\<lparr>preferences_file :=
          Some (''Genres:'' @ py_join '','' (Genres p) @ [LF]
                @ ''Emotions:'' @ py_join '','' (Emotions p) @ [LF]
                @ ''Year:'' @ Year p @ [LF])\<rparr>"

section \<open>Numbers read from table cells\<close>

text \<open>
  A cell of a TSV row is a string, or \<open>None\<close> when the row is shorter than the header
  (\<open>csv.DictReader\<close> fills the missing cells with \<open>None\<close>). \<open>int\<close> and \<open>float\<close> raise
  \<open>TypeError\<close> on \<open>None\<close> and \<open>ValueError\<close> on text that is not a literal.

  A literal is read after the blanks of C's \<open>isspace\<close> are removed at both ends (on
  an ASCII string these two do not skip the separators 0x1C-0x1F, which \<open>str.strip\<close>
  does): an optional sign, then digits in which single underscores may separate
  digits. \<open>int\<close> refuses a literal of more than 4300 digits (the default limit of
  CPython 3.11 and later). \<open>float\<close> also reads a fraction, an exponent and the words
  \<open>inf\<close>, \<open>infinity\<close> and \<open>nan\<close> in any letter case; the number read is rounded to
  the nearest binary64 value, ties to even, and to infinity beyond the range.
\<close>

type_synonym cell = "string option"

definition is_c_space :: "char \<Rightarrow> bool" where
  "is_c_space c = (c \<in> set [CHR 0x09, CHR 0x0A, CHR 0x0B, CHR 0x0C, CHR 0x0D, CHR 0x20])"

definition c_strip :: "string \<Rightarrow> string" where
  "c_strip s = rev (dropWhile is_c_space (rev (dropWhile is_c_space s)))"

definition is_digit :: "char \<Rightarrow> bool" where
  "is_digit c = (c \<in> set ''0123456789'')"

definition digit_val :: "char \<Rightarrow> int" where
  "digit_val c =
     (case map_of (zip ''0123456789'' [0, 1, 2, 3, 4, 5, 6, 7, 8, 9]) c of
        Some n \<Rightarrow> n
      | None \<Rightarrow> 0)"

fun digits_from :: "int \<Rightarrow> string \<Rightarrow> int option" where
  "digits_from n [] = Some n"
| "digits_from n [c] = (if is_digit c then Some (10 * n + digit_val c) else None)"
| "digits_from n (c # d # ds) =
     (if is_digit c then digits_from (10 * n + digit_val c) (d # ds)
      else if c = CHR ''_'' \<and> is_digit d then digits_from (10 * n + digit_val d) ds
      else None)"

definition digitpart :: "string \<Rightarrow> int option" where
  "digitpart s =
     (case s of
        [] \<Rightarrow> None
      | c # cs \<Rightarrow> if is_digit c then digits_from (digit_val c) cs else None)"

definition signed :: "string \<Rightarrow> bool \<times> string" where
  "signed s =
     (case s of
        [] \<Rightarrow> (False, [])
      | c # cs \<Rightarrow>
          if c = CHR ''-'' then (True, cs) else if c = CHR ''+'' then (False, cs) else (False, s))"

definition int_max_str_digits :: nat where
  "int_max_str_digits = 4300"

definition py_int :: "cell \<Rightarrow> int py_result" where
  "py_int x =
     (case x of
        None \<Rightarrow> Raises TypeError
      | Some s \<Rightarrow>
          (let (neg, body) = signed (c_strip s) in
           case digitpart body of
             None \<Rightarrow> Raises ValueError
           | Some n \<Rightarrow>
               if int_max_str_digits < length (filter is_digit body) then Raises ValueError
               else Returns (if neg then - n else n)))"

datatype py_float_value = Finite rat | PosInf | NegInf | NaN

definition mantissa :: "string \<Rightarrow> rat option" where
  "mantissa s =
     (case py_split1 CHR ''.'' s of
        [ipart] \<Rightarrow> map_option of_int (digitpart ipart)
      | [ipart, fpart] \<Rightarrow>
          (let w = (if ipart = [] then Some 0 else digitpart ipart);
               f = (if fpart = [] then Some 0 else digitpart fpart)
           in if ipart = [] \<and> fpart = [] then None
              else case (w, f) of
                (Some a, Some b) \<Rightarrow>
                  Some (of_int a + of_int b / 10 ^ length (filter is_digit fpart))
              | _ \<Rightarrow> None)
      | _ \<Rightarrow> None)"

definition exponent :: "string \<Rightarrow> int option" where
  "exponent s =
     (let (neg, body) = signed s in
      map_option (\<lambda>n. if neg then - n else n) (digitpart body))"

definition float_literal :: "string \<Rightarrow> rat option" where
  "float_literal s =
     (let low = py_lower s in
      if CHR ''e'' \<in> set low then
        (case (mantissa (takeWhile (\<lambda>c. c \<noteq> CHR ''e'') low),
               exponent (tl (dropWhile (\<lambda>c. c \<noteq> CHR ''e'') low))) of
           (Some m, Some e) \<Rightarrow> Some (if 0 \<le> e then m * 10 ^ nat e else m / 10 ^ nat (- e))
         | _ \<Rightarrow> None)
      else mantissa low)"

text \<open>
  Rounding to binary64. \<open>floor_log2 a\<close> is the \<open>e\<close> with \<open>2^e <= a < 2^(e+1)\<close> for a
  positive \<open>a\<close>; a value has 53 significant bits, and no bit below \<open>2^-1074\<close>.
\<close>

function bit_length :: "int \<Rightarrow> nat" where
  "bit_length n = (if n \<le> 0 then 0 else Suc (bit_length (n div 2)))"
  by pat_completeness auto
termination
  by (relation "measure nat") auto

declare bit_length.simps [simp del]

definition pow2 :: "int \<Rightarrow> rat" where
  "pow2 e = (if 0 \<le> e then 2 ^ nat e else 1 / 2 ^ nat (- e))"

definition floor_log2 :: "rat \<Rightarrow> int" where
  "floor_log2 a =
     (if 1 \<le> a then int (bit_length \<lfloor>a\<rfloor>) - 1
      else - int (bit_length (\<lceil>1 / a\<rceil> - 1)))"

definition round_half_even :: "rat \<Rightarrow> int" where
  "round_half_even x =
     (let below = \<lfloor>x\<rfloor>; rest = x - of_int below
      in if rest < 1 / 2 then below
         else if 1 / 2 < rest then below + 1
         else if even below then below else below + 1)"

definition binary64 :: "rat \<Rightarrow> py_float_value" where
  "binary64 q =
     (if q = 0 then Finite 0
      else
        (let a = \<bar>q\<bar>;
             step = pow2 (max (floor_log2 a - 52) (- 1074));
             v = of_int (round_half_even (a / step)) * step
         in if pow2 1024 \<le> v then (if q < 0 then NegInf else PosInf)
            else Finite (if q < 0 then - v else v)))"

definition py_float :: "cell \<Rightarrow> py_float_value py_result" where
  "py_float x =
     (case x of
        None \<Rightarrow> Raises TypeError
      | Some s \<Rightarrow>
          (let (neg, body) = signed (c_strip s) in
           if py_lower body \<in> set [''inf'', ''infinity''] then
             Returns (if neg then NegInf else PosInf)
           else if py_lower body = ''nan'' then Returns NaN
           else case float_literal body of
             None \<Rightarrow> Raises ValueError
           | Some q \<Rightarrow> Returns (binary64 (if neg then - q else q))))"

text \<open>\<open>x <= r\<close> on floats: every comparison with \<open>nan\<close> is false.\<close>

fun float_le :: "py_float_value \<Rightarrow> rat \<Rightarrow> bool" where
  "float_le (Finite q) r = (q \<le> r)"
| "float_le PosInf r = False"
| "float_le NegInf r = True"
| "float_le NaN r = False"

section \<open>Ranking by tally\<close>

text \<open>
  A Python \<open>dict\<close> keeps its keys in insertion order; it is an association list with
  one entry per key. \<open>dict_add k v d\<close> is \<open>d[k] = d.get(k, 0) + v\<close>.
\<close>

fun dict_add :: "'k \<Rightarrow> 'v::{zero,plus} \<Rightarrow> ('k \<times> 'v) list \<Rightarrow> ('k \<times> 'v) list" where
  "dict_add k v [] = [(k, 0 + v)]"
| "dict_add k v ((k', w) # d) =
     (if k' = k then (k', w + v) # d else (k', w) # dict_add k v d)"

definition tally :: "('k \<times> 'v::{zero,plus}) list \<Rightarrow> ('k \<times> 'v) list" where
  "tally entries = foldl (\<lambda>d (k, v). dict_add k v d) [] entries"

text \<open>
  \<open>sorted(d.items(), key=lambda item: item[1], reverse=True)\<close>: a stable sort, so items
  with equal values keep the order they have in \<open>d\<close>.
\<close>

fun insert_by_value :: "('k \<times> 'v::linorder) \<Rightarrow> ('k \<times> 'v) list \<Rightarrow> ('k \<times> 'v) list" where
  "insert_by_value x [] = [x]"
| "insert_by_value x (y # ys) =
     (if snd y \<le> snd x then x # y # ys else y # insert_by_value x ys)"

definition sorted_by_value_reverse :: "('k \<times> 'v::linorder) list \<Rightarrow> ('k \<times> 'v) list" where
  "sorted_by_value_reverse items = foldr insert_by_value items []"

definition top3 :: "('k \<times> 'v::linorder) list \<Rightarrow> 'k list" where
  "top3 d = map fst (take 3 (sorted_by_value_reverse d))"

text \<open>
  The words of the specification: the total of a key is the sum of its values in
  order of occurrence; \<open>a\<close> ranks before \<open>b\<close> when its total is larger, or equal with
  \<open>a\<close> seen first.
\<close>

definition first_pos :: "'a \<Rightarrow> 'a list \<Rightarrow> nat" where
  "first_pos x xs = length (takeWhile (\<lambda>y. y \<noteq> x) xs)"

definition total_of :: "('k \<times> 'v::{zero,plus}) list \<Rightarrow> 'k \<Rightarrow> 'v" where
  "total_of entries k = foldl (+) 0 (map snd (filter (\<lambda>e. fst e = k) entries))"

definition ranks_before :: "('k \<Rightarrow> 'v::linorder) \<Rightarrow> 'k list \<Rightarrow> 'k \<Rightarrow> 'k \<Rightarrow> bool" where
  "ranks_before tot seen a b =
     (tot b < tot a \<or> (tot a = tot b \<and> first_pos a seen < first_pos b seen))"

section \<open>Text Analytics and year bands\<close>

text \<open>
  \<^verbatim>\<open>analyze_emotions\<close> (lines 144-157). The classifier is external: \<open>classifier text\<close>
  is \<open>results[0]\<close>, the list of label and score pairs in the classifier's own order.
  Scores are any linearly ordered type with an addition.
\<close>

definition lowered_scores :: "(string \<times> 's) list \<Rightarrow> (string \<times> 's) list" where
  "lowered_scores results0 = map (\<lambda>(label, score). (py_lower label, score)) results0"

definition emotion_counts :: "(string \<times> 's::{zero,plus}) list \<Rightarrow> (string \<times> 's) list" where
  "emotion_counts results0 = tally (lowered_scores results0)"

definition analyze_emotions ::
  "(string \<Rightarrow> (string \<times> 's::{zero,plus,linorder}) list) \<Rightarrow> string \<Rightarrow> string list" where
  "analyze_emotions classifier text =
     (if py_strip text = [] then []
      else top3 (emotion_counts (classifier text)))"

text \<open>
  \<^verbatim>\<open>categorize_year\<close> (lines 159-171). A year past 2024 falls through every branch,
  which in Python returns \<open>None\<close>; only \<open>ValueError\<close> is caught.
\<close>

definition categorize_year :: "cell \<Rightarrow> string option py_result" where
  "categorize_year year =
     (case py_int year of
        Raises e \<Rightarrow> if e = ValueError then Returns None else Raises e
      | Returns y \<Rightarrow>
          if y \<le> 1999 then Returns (Some ''old'')
          else if 2000 \<le> y \<and> y \<le> 2009 then Returns (Some ''middle'')
          else if 2010 \<le> y \<and> y \<le> 2019 then Returns (Some ''new'')
          else if 2020 \<le> y \<and> y \<le> 2024 then Returns (Some ''very new'')
          else Returns None)"

section \<open>Matching Engine\<close>

text \<open>
  Rows of the two tables, as \<open>csv.DictReader\<close> yields them. The identifier and the
  title are taken as present; the other cells may be missing.
\<close>

record movie =
  tconst :: string
  originalTitle :: string
  startYear :: cell
  genres :: cell

record rating =
  rating_tconst :: string
  averageRating :: cell
  numVotes :: cell

text \<open>
  The two external services: the review page of a URL (\<open>None\<close> when nothing was found)
  and the classifier's scores for a text.
\<close>

record 's services =
  fetch_most_supported_review :: "string \<Rightarrow> string option"
  emotion_classifier :: "string \<Rightarrow> (string \<times> 's) list"

text \<open>
  What a run has done so far: the titles recommended, the files, and the URLs whose
  review page was requested, in order.
\<close>

record run_state =
  recommended :: "string list"
  store :: files
  fetched :: "string list"

text \<open>Lines 327-328: two matches are required once two preferences are stored.\<close>

definition required_matches :: "string list \<Rightarrow> nat" where
  "required_matches preferred = (if length preferred \<ge> 2 then 2 else 1)"

text \<open>Lines 335-340, the genre gate.\<close>

definition movie_genres :: "movie \<Rightarrow> string list" where
  "movie_genres m =
     (case genres m of
        None \<Rightarrow> []
      | Some g \<Rightarrow> if g \<noteq> [] then py_split CHR '','' g else [])"

definition genre_matches :: "preferences \<Rightarrow> movie \<Rightarrow> nat" where
  "genre_matches prefs m =
     length (filter (\<lambda>genre. py_lower (py_strip genre) \<in> set (map py_lower (Genres prefs)))
               (movie_genres m))"

definition genre_gate :: "preferences \<Rightarrow> movie \<Rightarrow> bool" where
  "genre_gate prefs m = (\<not> genre_matches prefs m < required_matches (Genres prefs))"

text \<open>Lines 342-345, the year gate.\<close>

definition year_gate :: "preferences \<Rightarrow> movie \<Rightarrow> bool py_result" where
  "year_gate prefs m =
     (case categorize_year (startYear m) of
        Raises e \<Rightarrow> Raises e
      | Returns movie_year_category \<Rightarrow>
          Returns (\<not> (movie_year_category = None
                       \<or> (Year prefs \<noteq> [] \<and> movie_year_category \<noteq> Some (Year prefs)))))"

text \<open>
  Lines 347-349, the dedup gate, against the lower-cased titles read from the two
  files at lines 312-315.
\<close>

definition dedup_gate :: "string list \<Rightarrow> string list \<Rightarrow> movie \<Rightarrow> bool" where
  "dedup_gate watched_titles watch_later_titles m =
     (\<not> (py_lower (originalTitle m) \<in> set watched_titles
          \<or> py_lower (originalTitle m) \<in> set watch_later_titles))"

text \<open>
  Lines 351-361, the rating gate. \<open>ratings_dict\<close> is the dictionary of line 318: a
  later row replaces an earlier one with the same identifier.
\<close>

definition ratings_dict :: "rating list \<Rightarrow> string \<Rightarrow> rating option" where
  "ratings_dict ratings = map_of (rev (map (\<lambda>r. (rating_tconst r, r)) ratings))"

definition rating_gate :: "rating list \<Rightarrow> movie \<Rightarrow> bool py_result" where
  "rating_gate ratings m =
     (case ratings_dict ratings (tconst m) of
        None \<Rightarrow> Returns False
      | Some r \<Rightarrow>
          (case py_float (averageRating r) of
             Raises e \<Rightarrow> if e = ValueError then Returns False else Raises e
           | Returns average_rating \<Rightarrow>
               (case py_int (numVotes r) of
                  Raises e \<Rightarrow> if e = ValueError then Returns False else Raises e
                | Returns num_votes \<Rightarrow>
                    Returns (\<not> (float_le average_rating (65 / 10) \<or> num_votes \<le> 50000)))))"

text \<open>Lines 363-375, the review and emotion gates.\<close>

definition movie_url :: "movie \<Rightarrow> string" where
  "movie_url m = ''https://www.imdb.com/title/'' @ tconst m @ ''/reviews''"

definition emotion_matches :: "preferences \<Rightarrow> string list \<Rightarrow> nat" where
  "emotion_matches prefs emotions =
     length (filter (\<lambda>emotion. py_lower (py_strip emotion) \<in> set (map py_lower (Emotions prefs)))
               emotions)"

definition emotion_gate :: "preferences \<Rightarrow> string list \<Rightarrow> bool" where
  "emotion_gate prefs emotions =
     (\<not> emotion_matches prefs emotions < required_matches (Emotions prefs))"

text \<open>
  The body of the loop (lines 335-387) for one candidate. A gate that fails is the
  \<open>continue\<close> of the source: the state is handed on as it is, except that a requested
  URL stays in the log.
\<close>

definition consider_movie ::
  "('s::{zero,plus,linorder}) services \<Rightarrow> preferences \<Rightarrow> rating list \<Rightarrow> string list \<Rightarrow>
   string list \<Rightarrow> movie \<Rightarrow> run_state \<Rightarrow> run_state py_result" where
  "consider_movie svc prefs ratings watched_titles watch_later_titles m st =
     (if \<not> genre_gate prefs m then Returns st
      else case year_gate prefs m of
        Raises e \<Rightarrow> Raises e
      | Returns year_ok \<Rightarrow>
          if \<not> year_ok then Returns st
          else if \<not> dedup_gate watched_titles watch_later_titles m then Returns st
          else case rating_gate ratings m of
            Raises e \<Rightarrow> Raises e
          | Returns rating_ok \<Rightarrow>
              if \<not> rating_ok then Returns st
              else
                (let st1 = st\<lparr>fetched := fetched st @ [movie_url m]\<rparr> in
                 case fetch_most_supported_review svc (movie_url m) of
                   None \<Rightarrow> Returns st1
                 | Some review_text \<Rightarrow>
                     if review_text = [] then Returns st1
                     else if \<not> emotion_gate prefs
                               (analyze_emotions (emotion_classifier svc) review_text)
                     then Returns st1
                     else Returns
                       (st1\<lparr>recommended := recommended st1 @ [originalTitle m],
                            store := append_watch_later (originalTitle m) (store st1)\<rparr>)))"

text \<open>
  The loop of lines 331-387. The result is the exception that ended the run, if any,
  and the state reached.
\<close>

fun recommend_loop ::
  "('s::{zero,plus,linorder}) services \<Rightarrow> preferences \<Rightarrow> rating list \<Rightarrow> string list \<Rightarrow>
   string list \<Rightarrow> movie list \<Rightarrow> run_state \<Rightarrow> py_error option \<times> run_state" where
  "recommend_loop svc prefs ratings wt wlt [] st = (None, st)"
| "recommend_loop svc prefs ratings wt wlt (m # ms) st =
     (if length (recommended st) \<ge> 3 then (None, st)
      else case consider_movie svc prefs ratings wt wlt m st of
        Raises e \<Rightarrow> (Some e, st)
      | Returns st' \<Rightarrow> recommend_loop svc prefs ratings wt wlt ms st')"

text \<open>\<^verbatim>\<open>recommend_based_on_preferences\<close> (lines 299-387).\<close>

definition recommend_based_on_preferences ::
  "('s::{zero,plus,linorder}) services \<Rightarrow> preferences \<Rightarrow> movie list \<Rightarrow> rating list \<Rightarrow>
   files \<Rightarrow> py_error option \<times> run_state" where
  "recommend_based_on_preferences svc prefs full_titles ratings fs =
     (let watch_later = read_watch_later fs;
          watched = read_watched fs;
          watched_titles = map (\<lambda>w. py_lower (entry_title w)) watched;
          watch_later_titles = map py_lower watch_later
      in recommend_loop svc prefs ratings watched_titles watch_later_titles full_titles
           \<lparr>recommended = [], store = fs, fetched = []\<rparr>)"

section \<open>Preference Deriver\<close>

text \<open>
  \<^verbatim>\<open>renew_preferences\<close>, lines 485-497: the genres of the movies entered in the
  session. An entry of \<open>new_movies\<close> carries the title, year and genres cells of the
  chosen catalog row and the review typed in.
\<close>

record new_movie =
  new_title :: string
  new_startYear :: cell
  new_genres :: cell
  new_review :: string

definition session_genres :: "new_movie list \<Rightarrow> string list" where
  "session_genres new_movies =
     concat (map (\<lambda>m. case new_genres m of
                         None \<Rightarrow> []
                       | Some g \<Rightarrow>
                           if g \<noteq> [] then
                             filter (\<lambda>genre. genre \<noteq> []) (map py_strip (py_split CHR '','' g))
                           else [])
                 new_movies)"

definition genres_count :: "new_movie list \<Rightarrow> (string \<times> nat) list" where
  "genres_count new_movies = tally (map (\<lambda>genre. (genre, 1)) (session_genres new_movies))"

definition top_genres :: "new_movie list \<Rightarrow> string list" where
  "top_genres new_movies = top3 (genres_count new_movies)"

section \<open>The genre gate in the words of the specification\<close>

text \<open>
  The candidate's genres are the pieces of its genre cell without surrounding blanks;
  a genre matches when some preferred genre equals it up to letter case.
\<close>

definition same_ignoring_case :: "string \<Rightarrow> string \<Rightarrow> bool" where
  "same_ignoring_case a b = (py_lower a = py_lower b)"

definition candidate_genres :: "movie \<Rightarrow> string list" where
  "candidate_genres m = map py_strip (movie_genres m)"

definition matching_genres :: "preferences \<Rightarrow> movie \<Rightarrow> string list" where
  "matching_genres prefs m =
     filter (\<lambda>g. \<exists>p \<in> set (Genres prefs). same_ignoring_case g p) (candidate_genres m)"

section \<open>Preferences that can be stored\<close>

text \<open>
  The conditions of the specification on a stored genre or emotion: not empty, no
  comma, no blank at either end. The band strings are those the program assigns
  (lines 523-536) and the empty one of a fresh record.
\<close>

definition plain_item :: "string \<Rightarrow> bool" where
  "plain_item s = (s \<noteq> [] \<and> CHR '','' \<notin> set s \<and> \<not> is_space (hd s) \<and> \<not> is_space (last s))"

definition year_bands :: "string list" where
  "year_bands = [''old'', ''middle'', ''new'', ''very new'', ''unknown'', []]"

text \<open>What the text format needs beyond that: one line, in which the tag occurs once.\<close>

definition has_line_break :: "string \<Rightarrow> bool" where
  "has_line_break s = (LF \<in> set s \<or> CR \<in> set s)"

definition storable_item :: "string \<Rightarrow> string \<Rightarrow> bool" where
  "storable_item tag s = (plain_item s \<and> \<not> has_line_break s \<and> \<not> sublist tag s)"

definition trimmed :: "string \<Rightarrow> bool" where
  "trimmed s = (s = [] \<or> (\<not> is_space (hd s) \<and> \<not> is_space (last s)))"

section \<open>Sample data\<close>

text \<open>
  Concrete inputs on which the theorems below are run: the end-to-end scenario of the
  specification (one drama of 2015, rated 8.0 by 100000 voters, with a joyful review)
  and variations of it.
\<close>

definition no_files :: files where
  "no_files = \<lparr>watched_file = None, preferences_file = None, watch_later_file = None\<rparr>"

definition two_titles :: files where
  "two_titles = \<lparr>watched_file = None, preferences_file = None,
                 watch_later_file = Some ''Alien,Brazil''\<rparr>"

definition drama_joy_new :: preferences where
  "drama_joy_new = \<lparr>Genres = [''Drama''], Emotions = [''joy''], Year = ''new''\<rparr>"

definition action_comedy :: preferences where
  "action_comedy = \<lparr>Genres = [''Action'', ''Comedy''], Emotions = [''joy''], Year = []\<rparr>"

definition movie_x :: movie where
  "movie_x = \<lparr>tconst = ''tt1'', originalTitle = ''X'', startYear = Some ''2015'',
              genres = Some ''Drama''\<rparr>"

definition movie_x_remake :: movie where
  "movie_x_remake = \<lparr>tconst = ''tt2'', originalTitle = ''X'', startYear = Some ''2018'',
                     genres = Some ''Drama''\<rparr>"

definition movie_no_year :: movie where
  "movie_no_year = \<lparr>tconst = ''tt1'', originalTitle = ''X'', startYear = None,
                    genres = Some ''Drama''\<rparr>"

definition movie_western :: movie where
  "movie_western = \<lparr>tconst = ''tt3'', originalTitle = ''Y'', startYear = Some ''2015'',
                    genres = Some ''Western''\<rparr>"

definition movie_action :: movie where
  "movie_action = \<lparr>tconst = ''tt4'', originalTitle = ''A'', startYear = Some ''1999'',
                   genres = Some ''Action''\<rparr>"

definition movie_action_comedy_drama :: movie where
  "movie_action_comedy_drama =
     \<lparr>tconst = ''tt5'', originalTitle = ''B'', startYear = Some ''2025'',
      genres = Some ''action, COMEDY,Drama''\<rparr>"

definition ratings_nan :: "rating list" where
  "ratings_nan = [\<lparr>rating_tconst = ''tt1'', averageRating = Some ''nan'', numVotes = Some ''60000''\<rparr>]"

definition ratings_short_row :: "rating list" where
  "ratings_short_row = [\<lparr>rating_tconst = ''tt1'', averageRating = Some ''8.0'', numVotes = None\<rparr>]"

definition rating_row :: "string \<Rightarrow> string \<Rightarrow> rating list" where
  "rating_row average votes =
     [\<lparr>rating_tconst = ''tt1'', averageRating = Some average, numVotes = Some votes\<rparr>]"

definition ratings_x :: "rating list" where
  "ratings_x = [\<lparr>rating_tconst = ''tt1'', averageRating = Some ''8.0'', numVotes = Some ''100000''\<rparr>,
                \<lparr>rating_tconst = ''tt2'', averageRating = Some ''7.2'', numVotes = Some ''60000''\<rparr>,
                \<lparr>rating_tconst = ''tt3'', averageRating = Some ''9.0'', numVotes = Some ''90000''\<rparr>]"

definition joyful :: "rat services" where
  "joyful = \<lparr>fetch_most_supported_review = (\<lambda>url. Some ''A joy''),
             emotion_classifier =
               (\<lambda>text. [(''sadness'', 1 / 10), (''joy'', 7 / 10), (''anger'', 1 / 10),
                         (''love'', 1 / 10)])\<rparr>"

definition repeated_labels :: "string \<Rightarrow> (string \<times> rat) list" where
  "repeated_labels text = [(''Joy'', 3 / 10), (''sadness'', 4 / 10), (''joy'', 2 / 10)]"

definition sample_session :: "new_movie list" where
  "sample_session =
     [\<lparr>new_title = ''P'', new_startYear = Some ''2001'', new_genres = Some ''Drama,Comedy'',
       new_review = ''fine''\<rparr>,
      \<lparr>new_title = ''Q'', new_startYear = Some ''2002'', new_genres = Some ''Comedy, Action'',
       new_review = ''good''\<rparr>,
      \<lparr>new_title = ''R'', new_startYear = None, new_genres = None, new_review = ''odd''\<rparr>,
      \<lparr>new_title = ''S'', new_startYear = Some ''2003'', new_genres = Some ''Action,Horror,Horror'',
       new_review = ''dark''\<rparr>]"

definition tagged_genre :: preferences where
  "tagged_genre = \<lparr>Genres = [''Genres:Drama''], Emotions = [''joy''], Year = ''new''\<rparr>"

definition two_line_genre :: preferences where
  "two_line_genre = \<lparr>Genres = [''Film'' @ [LF] @ ''Noir''], Emotions = [''joy''], Year = ''new''\<rparr>"

definition sci_fi_prefs :: preferences where
  "sci_fi_prefs = \<lparr>Genres = [''Drama'', ''Sci-Fi'', ''Film Noir''], Emotions = [''joy'', ''fear''],
                   Year = ''very new''\<rparr>"

definition fresh_run :: run_state where
  "fresh_run = \<lparr>recommended = [], store = no_files, fetched = []\<rparr>"

section \<open>The sample data evaluated\<close>

lemmas string_defs = py_strip_def is_space_def py_lower_def to_lower_def LF_def CR_def

lemmas number_defs = py_int_def int_max_str_digits_def py_float_def float_literal_def
  mantissa_def exponent_def c_strip_def is_c_space_def
  py_split1_def signed_def digitpart_def is_digit_def digit_val_def

lemma read_no_files: "read_watch_later no_files = []" "read_watched no_files = []"
  by (simp_all add: read_watch_later_def read_watched_def no_files_def)

lemma read_two_titles: "read_watch_later two_titles = [''Alien'', ''Brazil'']"
  by (simp add: two_titles_def read_watch_later_def file_read_def string_defs)

lemma sample_years:
  "py_int (Some ''1999'') = Returns 1999" "py_int (Some ''2000'') = Returns 2000"
  "py_int (Some ''2009'') = Returns 2009" "py_int (Some ''2010'') = Returns 2010"
  "py_int (Some ''2019'') = Returns 2019" "py_int (Some ''2020'') = Returns 2020"
  "py_int (Some ''2024'') = Returns 2024" "py_int (Some ''2025'') = Returns 2025"
  "py_int (Some ''2015'') = Returns 2015" "py_int (Some ''2018'') = Returns 2018"
  "py_int (Some ''N/A'') = Raises ValueError"
  "py_int (Some (CHR 0x1F # ''2015'')) = Raises ValueError"
  by (simp_all add: number_defs string_defs)

lemma floor_rat_numeral: "\<lfloor>numeral a / numeral b :: rat\<rfloor> = numeral a div numeral b"
  by (metis floor_divide_of_int_eq of_int_numeral)

lemma sample_bit_lengths:
  "bit_length 6 = 3" "bit_length 7 = 3" "bit_length 8 = 4" "bit_length 9 = 4"
  by (simp_all add: bit_length.simps)

lemma sample_logs:
  "floor_log2 (13 / 2) = 2" "floor_log2 (651 / 100) = 2" "floor_log2 (36 / 5) = 2"
  "floor_log2 8 = 3" "floor_log2 9 = 3"
  "floor_log2 (6500000000000000000001 / 1000000000000000000000) = 2"
  by (simp_all add: floor_log2_def floor_rat_numeral sample_bit_lengths)

lemma sample_roundings:
  "binary64 (13 / 2) = Finite (13 / 2)"
  "binary64 (651 / 100) = Finite (3664804196772741 / 562949953421312)"
  "binary64 (36 / 5) = Finite (8106479329266893 / 1125899906842624)"
  "binary64 8 = Finite 8" "binary64 9 = Finite 9"
  "binary64 (6500000000000000000001 / 1000000000000000000000) = Finite (13 / 2)"
  by (simp_all add: binary64_def Let_def sample_logs round_half_even_def pow2_def
      floor_rat_numeral)

lemma sample_floats:
  "py_float (Some ''6.5'') = Returns (Finite (13 / 2))"
  "py_float (Some ''6.51'') = Returns (Finite (3664804196772741 / 562949953421312))"
  "py_float (Some ''650.0000000000000000001e-2'') = Returns (Finite (13 / 2))"
  "py_float (Some ''8.0'') = Returns (Finite 8)"
  "py_float (Some ''7.2'') = Returns (Finite (8106479329266893 / 1125899906842624))"
  "py_float (Some ''9.0'') = Returns (Finite 9)"
  "py_float (Some ''N/A'') = Raises ValueError"
  "py_float (Some ''nan'') = Returns NaN"
  "py_float None = Raises TypeError"
  by (simp_all add: number_defs string_defs sample_roundings)

lemma sample_votes:
  "py_int (Some ''50000'') = Returns 50000" "py_int (Some ''50001'') = Returns 50001"
  "py_int (Some ''60000'') = Returns 60000" "py_int (Some ''100000'') = Returns 100000"
  "py_int (Some ''many'') = Raises ValueError" "py_int None = Raises TypeError"
  by (simp_all add: number_defs string_defs)

lemma sample_genre_gate:
  "genre_gate drama_joy_new movie_x" "genre_gate drama_joy_new movie_x_remake"
  "\<not> genre_gate drama_joy_new movie_western" "genre_gate drama_joy_new movie_no_year"
  by (simp_all add: genre_gate_def genre_matches_def movie_genres_def required_matches_def
      drama_joy_new_def movie_x_def movie_x_remake_def movie_western_def movie_no_year_def
      string_defs)

lemma sample_genre_gate2:
  "genre_gate action_comedy movie_action_comedy_drama"
  "\<not> genre_gate action_comedy movie_action"
  "genre_gate (action_comedy\<lparr>Genres := [''Action'']\<rparr>) movie_action"
  by (simp_all add: genre_gate_def genre_matches_def movie_genres_def required_matches_def
      action_comedy_def movie_action_comedy_drama_def movie_action_def string_defs)

lemma sample_year_gate:
  "year_gate drama_joy_new movie_x = Returns True"
  "year_gate drama_joy_new movie_x_remake = Returns True"
  by (simp_all add: year_gate_def categorize_year_def sample_years drama_joy_new_def
      movie_x_def movie_x_remake_def)

lemma sample_rating_gate:
  "rating_gate ratings_x movie_x = Returns True"
  "rating_gate ratings_x movie_x_remake = Returns True"
  by (simp_all add: rating_gate_def ratings_dict_def ratings_x_def sample_floats sample_votes
      movie_x_def movie_x_remake_def)

lemma sample_emotions:
  "analyze_emotions (emotion_classifier joyful) ''A joy'' = [''joy'', ''sadness'', ''anger'']"
  by (simp add: analyze_emotions_def emotion_counts_def lowered_scores_def tally_def top3_def
      sorted_by_value_reverse_def joyful_def string_defs)

lemma sample_emotion_gate: "emotion_gate drama_joy_new [''joy'', ''sadness'', ''anger'']"
  by (simp add: emotion_gate_def emotion_matches_def required_matches_def drama_joy_new_def
      string_defs)

lemma sample_review: "fetch_most_supported_review joyful url = Some ''A joy''"
  by (simp add: joyful_def)

lemma sample_fields:
  "movie_url movie_x = ''https://www.imdb.com/title/tt1/reviews''"
  "movie_url movie_x_remake = ''https://www.imdb.com/title/tt2/reviews''"
  "originalTitle movie_x = ''X''" "originalTitle movie_x_remake = ''X''"
  by (simp_all add: movie_url_def movie_x_def movie_x_remake_def)

lemma dedup_gate_nothing_stored: "dedup_gate [] [] m"
  by (simp add: dedup_gate_def)

lemma consider_movie_x:
  "consider_movie joyful drama_joy_new ratings_x [] [] movie_x st =
     Returns (st\<lparr>fetched := fetched st @ [''https://www.imdb.com/title/tt1/reviews''],
                 recommended := recommended st @ [''X''],
                 store := append_watch_later ''X'' (store st)\<rparr>)"
  by (simp add: consider_movie_def sample_genre_gate sample_year_gate sample_rating_gate
      sample_emotions sample_emotion_gate sample_review sample_fields dedup_gate_nothing_stored)

lemma consider_movie_x_remake:
  "consider_movie joyful drama_joy_new ratings_x [] [] movie_x_remake st =
     Returns (st\<lparr>fetched := fetched st @ [''https://www.imdb.com/title/tt2/reviews''],
                 recommended := recommended st @ [''X''],
                 store := append_watch_later ''X'' (store st)\<rparr>)"
  by (simp add: consider_movie_def sample_genre_gate sample_year_gate sample_rating_gate
      sample_emotions sample_emotion_gate sample_review sample_fields dedup_gate_nothing_stored)

lemma append_x:
  "append_watch_later ''X'' no_files = no_files\<lparr>watch_later_file := Some ''X''\<rparr>"
  "append_watch_later ''X'' (no_files\<lparr>watch_later_file := Some ''X''\<rparr>)
     = no_files\<lparr>watch_later_file := Some ''X,X''\<rparr>"
  by (simp_all add: append_watch_later_def read_watch_later_def no_files_def file_read_def
      string_defs)

section \<open>Removing from the watch-later list\<close>

text \<open>
  C10. Called with an index outside \<open>[0, length)\<close> of the current watch-later list,
  \<^verbatim>\<open>remove_watch_later\<close> returns \<open>None\<close> and leaves every file as it was: nothing is
  written.
\<close>

theorem remove_watch_later_out_of_range:
  assumes "index < 0 \<or> int (length (read_watch_later fs)) \<le> index"
  shows "remove_watch_later index fs = (Returns None, fs)"
  using assms by (auto simp: remove_watch_later_def Let_def)

theorem remove_watch_later_out_of_range_witness:
  "remove_watch_later 2 two_titles = (Returns None, two_titles)
   \<and> remove_watch_later (- 1) two_titles = (Returns None, two_titles)"
  using remove_watch_later_out_of_range [of 2 two_titles]
    remove_watch_later_out_of_range [of "- 1" two_titles]
  by (simp add: read_two_titles)

text \<open>
  C6 as the specification states it: an index outside \<open>[0, length)\<close> makes the removal
  fail with \<open>IndexError\<close>. It does not: with two stored titles, index 2 gives the
  value \<open>None\<close>.
\<close>

theorem remove_watch_later_no_index_error:
  "fst (remove_watch_later 2 two_titles) = Returns None
   \<and> fst (remove_watch_later 2 two_titles) \<noteq> Raises IndexError"
  by (simp add: remove_watch_later_def read_two_titles)

text \<open>
  C6, amended. \<^verbatim>\<open>remove_watch_later\<close> returns the title stored at the index, and
  writes the list without it, when the index is inside \<open>[0, length)\<close>; outside it
  returns \<open>None\<close> and raises nothing.
\<close>

theorem remove_watch_later_returns:
  "(0 \<le> index \<and> index < int (length (read_watch_later fs)) \<longrightarrow>
      remove_watch_later index fs
        = (Returns (Some (read_watch_later fs ! nat index)),
           fs\<lparr>watch_later_file :=
                 Some (py_join '','' (list_pop (nat index) (read_watch_later fs)))\<rparr>))
   \<and> (\<not> (0 \<le> index \<and> index < int (length (read_watch_later fs))) \<longrightarrow>
        fst (remove_watch_later index fs) = Returns None)"
  by (simp add: remove_watch_later_def Let_def)

theorem remove_watch_later_returns_witness:
  "remove_watch_later 1 two_titles
     = (Returns (Some ''Brazil''), two_titles\<lparr>watch_later_file := Some ''Alien''\<rparr>)
   \<and> fst (remove_watch_later 5 two_titles) = Returns None"
  using remove_watch_later_returns [of 1 two_titles] remove_watch_later_returns [of 5 two_titles]
  by (simp add: read_two_titles list_pop_def)

section \<open>The order of the gates\<close>

lemma consider_movie_genre_reject:
  "\<not> genre_gate prefs m \<Longrightarrow> consider_movie svc prefs ratings wt wlt m st = Returns st"
  by (simp add: consider_movie_def)

lemma recommend_loop_full:
  "3 \<le> length (recommended st) \<Longrightarrow> recommend_loop svc prefs ratings wt wlt ms st = (None, st)"
  by (cases ms) simp_all

lemma recommend_loop_filter:
  "recommend_loop svc prefs ratings wt wlt ms st
     = recommend_loop svc prefs ratings wt wlt (filter (genre_gate prefs) ms) st"
proof (induction ms arbitrary: st)
  case Nil
  show ?case by simp
next
  case (Cons m ms)
  show ?case
  proof (cases "3 \<le> length (recommended st)")
    case True
    then show ?thesis by (simp add: recommend_loop_full)
  next
    case False
    then show ?thesis
      using Cons.IH by (simp add: consider_movie_genre_reject split: py_result.splits)
  qed
qed

lemma consider_movie_fetched:
  "consider_movie svc prefs ratings wt wlt m st = Returns st' \<Longrightarrow>
   fetched st' = fetched st \<or> (genre_gate prefs m \<and> fetched st' = fetched st @ [movie_url m])"
  by (auto simp: consider_movie_def Let_def split: if_splits py_result.splits option.splits)

lemma recommend_loop_fetched:
  "set (fetched (snd (recommend_loop svc prefs ratings wt wlt ms st)))
     \<subseteq> set (fetched st) \<union> movie_url ` {m \<in> set ms. genre_gate prefs m}"
proof (induction ms arbitrary: st)
  case Nil
  then show ?case by simp
next
  case (Cons m ms)
  let ?U = "\<lambda>xs. movie_url ` {x \<in> set xs. genre_gate prefs x}"
  have split_U: "?U (m # ms) = ?U [m] \<union> ?U ms"
    by auto
  show ?case
  proof (cases "3 \<le> length (recommended st)")
    case True
    then show ?thesis by (simp add: recommend_loop_full)
  next
    case False
    show ?thesis
    proof (cases "consider_movie svc prefs ratings wt wlt m st")
      case (Raises e)
      with False have "recommend_loop svc prefs ratings wt wlt (m # ms) st = (Some e, st)"
        by simp
      then show ?thesis by simp
    next
      case (Returns st')
      with False have unfold: "recommend_loop svc prefs ratings wt wlt (m # ms) st
                   = recommend_loop svc prefs ratings wt wlt ms st'"
        by simp
      have step: "set (fetched st') \<subseteq> set (fetched st) \<union> ?U [m]"
        using consider_movie_fetched [OF Returns] by auto
      have later: "set (fetched (snd (recommend_loop svc prefs ratings wt wlt ms st')))
                     \<subseteq> set (fetched st') \<union> ?U ms"
        by (rule Cons.IH)
      have "set (fetched (snd (recommend_loop svc prefs ratings wt wlt ms st')))
              \<subseteq> set (fetched st) \<union> (?U [m] \<union> ?U ms)"
        using step by (intro subset_trans [OF later]) blast
      then show ?thesis
        unfolding unfold split_U .
    qed
  qed
qed

text \<open>
  C2. A candidate whose genre-match count is below the required number is rejected
  before any review is fetched: considering it leaves the whole state, the log of
  requested URLs included, as it was. So a run over the catalog is the run over the
  candidates that pass the genre gate, and every URL a run requests belongs to such a
  candidate.
\<close>

theorem genre_gate_before_fetch:
  "(genre_matches prefs m < required_matches (Genres prefs) \<longrightarrow>
      consider_movie svc prefs ratings wt wlt m st = Returns st)
   \<and> recommend_loop svc prefs ratings wt wlt ms st
       = recommend_loop svc prefs ratings wt wlt (filter (genre_gate prefs) ms) st
   \<and> set (fetched (snd (recommend_loop svc prefs ratings wt wlt ms st)))
       \<subseteq> set (fetched st) \<union> movie_url ` {m \<in> set ms. genre_gate prefs m}"
  using recommend_loop_filter [of svc prefs ratings wt wlt ms st]
    recommend_loop_fetched [of svc prefs ratings wt wlt ms st]
  by (simp add: consider_movie_genre_reject genre_gate_def)

theorem genre_gate_before_fetch_witness:
  "consider_movie joyful drama_joy_new ratings_x [] [] movie_western fresh_run = Returns fresh_run
   \<and> fetched (snd (recommend_loop joyful drama_joy_new ratings_x [] []
                      [movie_western, movie_x] fresh_run))
       = [''https://www.imdb.com/title/tt1/reviews'']"
proof -
  have low: "genre_matches drama_joy_new movie_western < required_matches (Genres drama_joy_new)"
    using sample_genre_gate(3) by (simp add: genre_gate_def)
  have keep: "filter (genre_gate drama_joy_new) [movie_western, movie_x] = [movie_x]"
    by (simp add: sample_genre_gate)
  show ?thesis
    using genre_gate_before_fetch [of drama_joy_new movie_western joyful ratings_x "[]" "[]"
        fresh_run "[movie_western, movie_x]"] low
    by (simp add: keep consider_movie_x fresh_run_def)
qed

section \<open>The year gate\<close>

text \<open>
  A year cell that reads as an integer is classified \<open>old\<close> up to 1999, \<open>middle\<close> for
  2000-2009, \<open>new\<close> for 2010-2019 and \<open>very new\<close> (the band the specification writes
  very-new) for 2020-2024; a later year, and a cell whose text is not an integer
  literal, has no band. The year gate rejects a candidate without a band, and one
  whose band differs from a non-empty preferred band; a rejected candidate leaves the
  state as it was.
\<close>

lemma categorize_year_bands:
  "(py_int (Some s) = Returns y \<longrightarrow>
      (y \<le> 1999 \<longrightarrow> categorize_year (Some s) = Returns (Some ''old''))
      \<and> (2000 \<le> y \<and> y \<le> 2009 \<longrightarrow> categorize_year (Some s) = Returns (Some ''middle''))
      \<and> (2010 \<le> y \<and> y \<le> 2019 \<longrightarrow> categorize_year (Some s) = Returns (Some ''new''))
      \<and> (2020 \<le> y \<and> y \<le> 2024 \<longrightarrow> categorize_year (Some s) = Returns (Some ''very new''))
      \<and> (2025 \<le> y \<longrightarrow> categorize_year (Some s) = Returns None))
   \<and> (py_int (Some s) = Raises ValueError \<longrightarrow> categorize_year (Some s) = Returns None)
   \<and> (categorize_year (startYear m) = Returns None \<longrightarrow> year_gate prefs m = Returns False)
   \<and> (categorize_year (startYear m) = Returns (Some band) \<and> Year prefs \<noteq> []
        \<and> Year prefs \<noteq> band \<longrightarrow> year_gate prefs m = Returns False)
   \<and> (year_gate prefs m = Returns False \<longrightarrow>
        consider_movie svc prefs ratings wt wlt m st = Returns st)"
  by (auto simp: categorize_year_def year_gate_def consider_movie_def)

lemma categorize_year_bands_sample:
  "categorize_year (Some ''1999'') = Returns (Some ''old'')
   \<and> categorize_year (Some ''2000'') = Returns (Some ''middle'')
   \<and> categorize_year (Some ''2009'') = Returns (Some ''middle'')
   \<and> categorize_year (Some ''2010'') = Returns (Some ''new'')
   \<and> categorize_year (Some ''2019'') = Returns (Some ''new'')
   \<and> categorize_year (Some ''2020'') = Returns (Some ''very new'')
   \<and> categorize_year (Some ''2024'') = Returns (Some ''very new'')
   \<and> categorize_year (Some ''2025'') = Returns None
   \<and> categorize_year (Some ''N/A'') = Returns None
   \<and> year_gate action_comedy movie_action_comedy_drama = Returns False
   \<and> year_gate drama_joy_new movie_action = Returns False
   \<and> consider_movie joyful action_comedy ratings_x [] [] movie_action_comedy_drama fresh_run
       = Returns fresh_run"
proof -
  note bands = categorize_year_bands [where svc = joyful and ratings = ratings_x and wt = "[]"
      and wlt = "[]" and st = fresh_run]
  note late_year = bands [where m = movie_action_comedy_drama and prefs = action_comedy
      and band = "''old''"]
  note old_year = bands [where m = movie_action and prefs = drama_joy_new and band = "''old''"]
  have old: "categorize_year (Some ''1999'') = Returns (Some ''old'')"
    using old_year [of "''1999''" 1999] by (simp add: sample_years)
  have late: "categorize_year (Some ''2025'') = Returns None"
    using late_year [of "''2025''" 2025] by (simp add: sample_years)
  have none: "year_gate action_comedy movie_action_comedy_drama = Returns False"
    using late_year [of "''2025''" 2025] late by (simp add: movie_action_comedy_drama_def)
  have other: "year_gate drama_joy_new movie_action = Returns False"
    using old_year [of "''1999''" 1999] old by (simp add: movie_action_def drama_joy_new_def)
  have rejected: "consider_movie joyful action_comedy ratings_x [] [] movie_action_comedy_drama
                    fresh_run = Returns fresh_run"
    using late_year [of "''2025''" 2025] none by simp
  have middle: "categorize_year (Some ''2000'') = Returns (Some ''middle'')"
      "categorize_year (Some ''2009'') = Returns (Some ''middle'')"
    using old_year [of "''2000''" 2000] old_year [of "''2009''" 2009]
    by (simp_all add: sample_years)
  have new: "categorize_year (Some ''2010'') = Returns (Some ''new'')"
      "categorize_year (Some ''2019'') = Returns (Some ''new'')"
    using old_year [of "''2010''" 2010] old_year [of "''2019''" 2019]
    by (simp_all add: sample_years)
  have very_new: "categorize_year (Some ''2020'') = Returns (Some ''very new'')"
      "categorize_year (Some ''2024'') = Returns (Some ''very new'')"
    using old_year [of "''2020''" 2020] old_year [of "''2024''" 2024]
    by (simp_all add: sample_years)
  have not_a_year: "categorize_year (Some ''N/A'') = Returns None"
    using old_year [of "''N/A''" 0] by (simp add: sample_years)
  show ?thesis
    using old middle new very_new late not_a_year none other rejected by simp
qed

text \<open>
  C4. The bands are as the specification gives them, but a year that is missing is
  not turned into "no band": \<^verbatim>\<open>categorize_year\<close> catches \<open>ValueError\<close> only (line 170,
  "Return None if year is not a valid integer"), and \<open>int(None)\<close> raises \<open>TypeError\<close>.
  A candidate that passes the genre gate and has no year cell is not rejected by the
  year gate; the exception ends the run, and the candidates after it are never
  considered.
\<close>

theorem missing_year_raises:
  "categorize_year None = Raises TypeError
   \<and> genre_gate drama_joy_new movie_no_year
   \<and> year_gate drama_joy_new movie_no_year = Raises TypeError
   \<and> recommend_based_on_preferences joyful drama_joy_new [movie_no_year, movie_x_remake]
         ratings_x no_files
       = (Some TypeError, \<lparr>recommended = [], store = no_files, fetched = []\<rparr>)"
proof -
  have cell: "categorize_year None = Raises TypeError"
    by (simp add: categorize_year_def sample_votes)
  then have gate: "year_gate drama_joy_new movie_no_year = Raises TypeError"
    by (simp add: year_gate_def movie_no_year_def)
  have "consider_movie joyful drama_joy_new ratings_x [] [] movie_no_year st = Raises TypeError"
    for st
    by (simp add: consider_movie_def sample_genre_gate gate)
  then show ?thesis
    by (simp add: cell gate sample_genre_gate recommend_based_on_preferences_def read_no_files)
qed

section \<open>The genre gate\<close>

lemma same_case_member:
  "(\<exists>p \<in> set ps. same_ignoring_case g p) = (py_lower g \<in> set (map py_lower ps))"
  by (auto simp: same_ignoring_case_def)

text \<open>
  C5. The genre gate counts the candidate's genres that equal a preferred genre up to
  letter case, and lets the candidate pass exactly when the count reaches 2 if two or
  more genres are preferred and 1 otherwise. With no preferred genre nothing passes.
  A candidate that does not pass is rejected: the state stays as it was.
\<close>

theorem genre_gate_counts:
  "genre_gate prefs m
     = ((if 2 \<le> length (Genres prefs) then 2 else 1) \<le> length (matching_genres prefs m))
   \<and> \<not> genre_gate (prefs\<lparr>Genres := []\<rparr>) m
   \<and> (\<not> genre_gate prefs m \<longrightarrow> consider_movie svc prefs ratings wt wlt m st = Returns st)"
proof -
  have "length (matching_genres prefs m) = genre_matches prefs m"
    by (simp add: matching_genres_def candidate_genres_def genre_matches_def same_case_member
        filter_map o_def)
  moreover have "genre_matches (prefs\<lparr>Genres := []\<rparr>) m = 0"
    by (simp add: genre_matches_def)
  ultimately show ?thesis
    by (simp add: genre_gate_def required_matches_def consider_movie_def not_less)
qed

theorem genre_gate_counts_witness:
  "\<not> genre_gate action_comedy movie_action
   \<and> genre_gate action_comedy movie_action_comedy_drama
   \<and> matching_genres action_comedy movie_action_comedy_drama = [''action'', ''COMEDY'']
   \<and> \<not> genre_gate (action_comedy\<lparr>Genres := []\<rparr>) movie_action
   \<and> consider_movie joyful action_comedy ratings_x [] [] movie_action fresh_run = Returns fresh_run"
proof -
  have one: "matching_genres action_comedy movie_action = [''Action'']"
    by (simp add: matching_genres_def candidate_genres_def movie_genres_def same_ignoring_case_def
        action_comedy_def movie_action_def string_defs)
  have two: "matching_genres action_comedy movie_action_comedy_drama = [''action'', ''COMEDY'']"
    by (simp add: matching_genres_def candidate_genres_def movie_genres_def same_ignoring_case_def
        action_comedy_def movie_action_comedy_drama_def string_defs)
  have len: "length (Genres action_comedy) = 2"
    by (simp add: action_comedy_def)
  show ?thesis
    using genre_gate_counts [of action_comedy movie_action joyful ratings_x "[]" "[]" fresh_run]
      genre_gate_counts [of action_comedy movie_action_comedy_drama joyful ratings_x "[]" "[]"
        fresh_run]
    by (simp add: one two len)
qed


section \<open>Titles accepted twice in one run\<close>

text \<open>A candidate that is accepted is appended to the result and to the watch-later file.\<close>

lemma accepted_title_is_stored:
  assumes "consider_movie svc prefs ratings wt wlt m st = Returns st'"
    and "recommended st' \<noteq> recommended st"
  shows "recommended st' = recommended st @ [originalTitle m]
         \<and> store st' = append_watch_later (originalTitle m) (store st)"
  using assms
  by (auto simp: consider_movie_def Let_def split: if_splits py_result.splits option.splits)

text \<open>
  C1. An accepted title is appended to the result and to the watch-later file at once,
  but the dedup gate compares against the titles read before the loop (lines 312-315)
  and never sees it. Two catalog rows with the title \<open>X\<close> that both pass the other
  gates are both accepted in the same run, and the file ends as \<open>X,X\<close>.
\<close>

theorem same_title_recommended_twice:
  "recommend_based_on_preferences joyful drama_joy_new [movie_x, movie_x_remake] ratings_x no_files
     = (None,
        \<lparr>recommended = [''X'', ''X''],
         store = no_files\<lparr>watch_later_file := Some ''X,X''\<rparr>,
         fetched = [''https://www.imdb.com/title/tt1/reviews'',
                    ''https://www.imdb.com/title/tt2/reviews'']\<rparr>)"
  by (simp add: recommend_based_on_preferences_def read_no_files consider_movie_x
      consider_movie_x_remake append_x)

section \<open>The rating gate\<close>

lemma rating_gate_row:
  "rating_gate (rating_row average votes) movie_x =
     (case py_float (Some average) of
        Raises e \<Rightarrow> if e = ValueError then Returns False else Raises e
      | Returns a \<Rightarrow>
          (case py_int (Some votes) of
             Raises e \<Rightarrow> if e = ValueError then Returns False else Raises e
           | Returns n \<Rightarrow> Returns (\<not> (float_le a (65 / 10) \<or> n \<le> 50000))))"
  by (simp add: rating_gate_def ratings_dict_def rating_row_def movie_x_def
      split: py_result.splits)

text \<open>On a row whose cells read as a finite rating and a vote count, both bounds are strict.\<close>

lemma rating_gate_finite:
  assumes "ratings_dict ratings (tconst m) = Some r"
    and "py_float (averageRating r) = Returns (Finite q)"
    and "py_int (numVotes r) = Returns n"
  shows "rating_gate ratings m = Returns (65 / 10 < q \<and> 50000 < n)"
  using assms by (auto simp: rating_gate_def)

text \<open>
  The boundaries of the rating gate, on rows whose cells are decimal numbers. A rating
  written just above 6.5 that \<open>float\<close> rounds to 6.5 is rejected.
\<close>

lemma rating_gate_boundaries:
  "rating_gate (rating_row ''6.5'' ''100000'') movie_x = Returns False"
  "rating_gate (rating_row ''8.0'' ''50000'') movie_x = Returns False"
  "rating_gate (rating_row ''6.51'' ''50001'') movie_x = Returns True"
  "rating_gate (rating_row ''650.0000000000000000001e-2'' ''100000'') movie_x = Returns False"
  "rating_gate (rating_row ''N/A'' ''100000'') movie_x = Returns False"
  "rating_gate (rating_row ''8.0'' ''many'') movie_x = Returns False"
  "rating_gate [] movie_x = Returns False"
  by (simp_all add: rating_gate_row sample_floats sample_votes)
     (simp add: rating_gate_def ratings_dict_def)

text \<open>
  C3. A rating cell \<open>nan\<close> is accepted by \<open>float\<close>, and \<open>nan <= 6.5\<close> is false, so the
  candidate passes the rating gate with a rating that is not above 6.5. A row that
  lacks its vote cell makes \<open>int\<close> raise \<open>TypeError\<close>, which the \<open>except ValueError\<close>
  of line 358 does not catch: the run ends with the exception.
\<close>

theorem rating_gate_nan_and_missing_cell:
  "rating_gate ratings_nan movie_x = Returns True
   \<and> fst (recommend_based_on_preferences joyful drama_joy_new [movie_x] ratings_nan no_files) = None
   \<and> recommended (snd (recommend_based_on_preferences joyful drama_joy_new [movie_x] ratings_nan
                          no_files)) = [''X'']
   \<and> rating_gate ratings_short_row movie_x = Raises TypeError
   \<and> fst (recommend_based_on_preferences joyful drama_joy_new [movie_x] ratings_short_row
             no_files) = Some TypeError"
proof -
  have nan: "rating_gate ratings_nan movie_x = Returns True"
    by (simp add: rating_gate_def ratings_dict_def ratings_nan_def movie_x_def sample_floats
        sample_votes)
  have short: "rating_gate ratings_short_row movie_x = Raises TypeError"
    by (simp add: rating_gate_def ratings_dict_def ratings_short_row_def movie_x_def
        sample_floats sample_votes)
  have accepted: "consider_movie joyful drama_joy_new ratings_nan [] [] movie_x st =
     Returns (st\<lparr>fetched := fetched st @ [''https://www.imdb.com/title/tt1/reviews''],
                 recommended := recommended st @ [''X''],
                 store := append_watch_later ''X'' (store st)\<rparr>)" for st
    by (simp add: consider_movie_def sample_genre_gate sample_year_gate nan sample_emotions
        sample_emotion_gate sample_review sample_fields dedup_gate_nothing_stored)
  have raised: "consider_movie joyful drama_joy_new ratings_short_row [] [] movie_x st
                  = Raises TypeError" for st
    by (simp add: consider_movie_def sample_genre_gate sample_year_gate short
        dedup_gate_nothing_stored)
  show ?thesis
    by (simp add: nan short recommend_based_on_preferences_def read_no_files accepted raised)
qed

section \<open>Tallies and their ranking\<close>

lemma dict_add_keys:
  "map fst (dict_add k v d) = (if k \<in> set (map fst d) then map fst d else map fst d @ [k])"
proof (induction d)
  case Nil
  show ?case by simp
next
  case (Cons e d)
  obtain k' w where e: "e = (k', w)" by (cases e)
  show ?case
    using Cons unfolding e by (cases "k' = k") (simp_all split: if_splits)
qed

lemma dict_add_lookup:
  "map_of (dict_add k v d) k' =
     (if k' = k then Some ((case map_of d k of None \<Rightarrow> 0 | Some w \<Rightarrow> w) + v) else map_of d k')"
  by (induction d) auto

lemma tally_snoc: "tally (es @ [(k, v)]) = dict_add k v (tally es)"
  by (simp add: tally_def)

lemma tally_keys: "set (map fst (tally es)) = set (map fst es)"
proof (induction es rule: rev_induct)
  case Nil
  show ?case by (simp add: tally_def)
next
  case (snoc e es)
  obtain k v where e: "e = (k, v)" by (cases e)
  have "set (map fst (dict_add k v (tally es))) = insert k (set (map fst (tally es)))"
    unfolding dict_add_keys by auto
  then show ?case
    using snoc unfolding e tally_snoc by simp
qed

lemma tally_distinct: "distinct (map fst (tally es))"
proof (induction es rule: rev_induct)
  case Nil
  show ?case by (simp add: tally_def)
next
  case (snoc e es)
  obtain k v where e: "e = (k, v)" by (cases e)
  show ?case
    using snoc unfolding e tally_snoc dict_add_keys by simp
qed

lemma total_of_snoc:
  "total_of (es @ [(k, v)]) k' = (if k' = k then total_of es k + v else total_of es k')"
  by (simp add: total_of_def)

lemma total_of_unseen: "k \<notin> set (map fst es) \<Longrightarrow> total_of es k = 0"
proof -
  assume "k \<notin> set (map fst es)"
  then have "filter (\<lambda>e. fst e = k) es = []"
    by (auto simp: filter_empty_conv)
  then show ?thesis by (simp add: total_of_def)
qed

lemma tally_lookup:
  "map_of (tally es) k = (if k \<in> set (map fst es) then Some (total_of es k) else None)"
proof (induction es arbitrary: k rule: rev_induct)
  case Nil
  show ?case by (simp add: tally_def)
next
  case (snoc e es)
  obtain k' v where e: "e = (k', v)" by (cases e)
  show ?case
    using snoc [of k] snoc [of k']
    by (auto simp: e tally_snoc dict_add_lookup total_of_snoc total_of_unseen)
qed

lemma first_pos_append: "x \<in> set xs \<Longrightarrow> first_pos x (xs @ ys) = first_pos x xs"
  by (simp add: first_pos_def)
 
lemma first_pos_less: "x \<in> set xs \<Longrightarrow> first_pos x xs < length xs"
  unfolding first_pos_def by (induction xs) auto

lemma first_pos_new: "x \<notin> set xs \<Longrightarrow> first_pos x (xs @ [x]) = length xs"
  unfolding first_pos_def by (induction xs) auto

lemma tally_order:
  "sorted_wrt (\<lambda>a b. first_pos a (map fst es) < first_pos b (map fst es)) (map fst (tally es))"
proof (induction es rule: rev_induct)
  case Nil
  show ?case by (simp add: tally_def)
next
  case (snoc e es)
  obtain k v where e: "e = (k, v)" by (cases e)
  let ?seen = "map fst es"
  let ?keys = "map fst (tally es)"
  have keys: "set ?keys = set ?seen"
    by (rule tally_keys)
  have same: "first_pos a (?seen @ [k]) = first_pos a ?seen" if "a \<in> set ?keys" for a
    using that keys by (simp add: first_pos_append)
  have old: "sorted_wrt (\<lambda>a b. first_pos a (?seen @ [k]) < first_pos b (?seen @ [k])) ?keys"
    by (rule sorted_wrt_mono_rel [OF _ snoc]) (simp add: same)
  show ?case
  proof (cases "k \<in> set ?seen")
    case True
    then show ?thesis
      using old keys unfolding e tally_snoc dict_add_keys by simp
  next
    case False
    have "first_pos a (?seen @ [k]) < first_pos k (?seen @ [k])" if "a \<in> set ?keys" for a
      using that keys False first_pos_less [of a ?seen]
      by (simp add: same first_pos_new)
    then show ?thesis
      using old False keys unfolding e tally_snoc dict_add_keys
      by (simp add: sorted_wrt_append)
  qed
qed

lemma set_insert_by_value: "set (insert_by_value x ys) = insert x (set ys)"
  by (induction ys) auto

lemma set_sorted_by_value_reverse: "set (sorted_by_value_reverse xs) = set xs"
  by (induction xs) (auto simp: sorted_by_value_reverse_def set_insert_by_value)

lemma distinct_insert_by_value:
  "distinct (map fst (insert_by_value x ys)) = (fst x \<notin> fst ` set ys \<and> distinct (map fst ys))"
  by (induction ys) (auto simp: set_insert_by_value)

lemma distinct_sorted_by_value_reverse:
  "distinct (map fst (sorted_by_value_reverse xs)) = distinct (map fst xs)"
  by (induction xs)
    (auto simp: sorted_by_value_reverse_def distinct_insert_by_value
      set_sorted_by_value_reverse [unfolded sorted_by_value_reverse_def])

lemma sorted_insert_by_value:
  assumes "sorted_wrt (\<lambda>p q. snd q < snd p \<or> (snd p = snd q \<and> R p q)) ys"
    and "\<forall>y \<in> set ys. R x y"
  shows "sorted_wrt (\<lambda>p q. snd q < snd p \<or> (snd p = snd q \<and> R p q)) (insert_by_value x ys)"
  using assms
proof (induction ys)
  case Nil
  show ?case by simp
next
  case (Cons y ys)
  show ?case
  proof (cases "snd y \<le> snd x")
    case True
    have "\<forall>z \<in> set ys. snd z \<le> snd y"
      using Cons.prems(1) by auto
    then have "\<forall>z \<in> set (y # ys). snd z \<le> snd x"
      using True by auto
    then have "\<forall>z \<in> set (y # ys). snd z < snd x \<or> (snd x = snd z \<and> R x z)"
      using Cons.prems(2) by (auto simp: le_less)
    then show ?thesis
      using True Cons.prems(1) by simp
  next
    case False
    then show ?thesis
      using Cons by (auto simp: set_insert_by_value)
  qed
qed

lemma sorted_by_value_reverse_stable:
  assumes "sorted_wrt R xs"
  shows "sorted_wrt (\<lambda>p q. snd q < snd p \<or> (snd p = snd q \<and> R p q)) (sorted_by_value_reverse xs)"
  using assms
proof (induction xs)
  case Nil
  show ?case by (simp add: sorted_by_value_reverse_def)
next
  case (Cons x xs)
  have "\<forall>y \<in> set (sorted_by_value_reverse xs). R x y"
    using Cons.prems by (simp add: set_sorted_by_value_reverse)
  moreover have "sorted_wrt (\<lambda>p q. snd q < snd p \<or> (snd p = snd q \<and> R p q)) (sorted_by_value_reverse xs)"
    using Cons by simp
  ultimately have "sorted_wrt (\<lambda>p q. snd q < snd p \<or> (snd p = snd q \<and> R p q))
                     (insert_by_value x (sorted_by_value_reverse xs))"
    by (intro sorted_insert_by_value)
  then show ?case
    by (simp add: sorted_by_value_reverse_def)
qed


lemma tally_values:
  assumes "p \<in> set (tally es)"
  shows "snd p = total_of es (fst p)"
proof -
  have "(fst p, snd p) \<in> set (tally es)"
    using assms by simp
  then have "map_of (tally es) (fst p) = Some (snd p)"
    using tally_distinct [of es] by (rule map_of_is_SomeI [rotated])
  then show ?thesis
    by (simp add: tally_lookup split: if_splits)
qed

lemma top3_tally_ranking:
  "\<exists>ranked. distinct ranked \<and> set ranked = set (map fst es)
     \<and> sorted_wrt (ranks_before (total_of es) (map fst es)) ranked
     \<and> top3 (tally es) = take 3 ranked"
proof -
  let ?seen = "map fst es"
  let ?items = "sorted_by_value_reverse (tally es)"
  let ?R = "\<lambda>p q. first_pos (fst p) ?seen < first_pos (fst q) ?seen"
  have "sorted_wrt ?R (tally es)"
    using tally_order [of es] by (simp add: sorted_wrt_map)
  then have "sorted_wrt (\<lambda>p q. snd q < snd p \<or> (snd p = snd q \<and> ?R p q)) ?items"
    by (rule sorted_by_value_reverse_stable)
  then have "sorted_wrt (\<lambda>p q. ranks_before (total_of es) ?seen (fst p) (fst q)) ?items"
    by (rule sorted_wrt_mono_rel [rotated])
      (simp add: ranks_before_def set_sorted_by_value_reverse tally_values)
  then have ranked: "sorted_wrt (ranks_before (total_of es) ?seen) (map fst ?items)"
    by (simp add: sorted_wrt_map)
  have "distinct (map fst ?items)"
    by (simp add: distinct_sorted_by_value_reverse tally_distinct)
  moreover have "set (map fst ?items) = set ?seen"
    using tally_keys [of es] by (simp add: set_sorted_by_value_reverse)
  moreover have "top3 (tally es) = take 3 (map fst ?items)"
    by (simp add: top3_def take_map)
  ultimately show ?thesis
    using ranked by blast
qed

lemma length_top3: "length (top3 d) \<le> 3"
  by (simp add: top3_def)

lemma distinct_top3_tally: "distinct (top3 (tally es))"
proof -
  have "distinct (map fst (sorted_by_value_reverse (tally es)))"
    by (simp add: distinct_sorted_by_value_reverse tally_distinct)
  then show ?thesis
    by (simp add: top3_def take_map [symmetric])
qed

lemma total_of_ones: "total_of (map (\<lambda>g. (g, 1::nat)) gs) k = count_list gs k"
proof (induction gs rule: rev_induct)
  case Nil
  show ?case by (simp add: total_of_def)
next
  case (snoc g gs)
  have "total_of (map (\<lambda>g. (g, 1::nat)) gs @ [(g, 1)]) k
          = (if k = g then total_of (map (\<lambda>g. (g, 1)) gs) g + 1
             else total_of (map (\<lambda>g. (g, 1)) gs) k)"
    by (rule total_of_snoc)
  then show ?case
    using snoc by auto
qed

lemma strip_empty_iff: "py_strip s = [] \<longleftrightarrow> (\<forall>c \<in> set s. is_space c)"
proof
  assume "py_strip s = []"
  then have "dropWhile is_space (rev (dropWhile is_space s)) = []"
    by (simp add: py_strip_def)
  then have all: "\<forall>c \<in> set (dropWhile is_space s). is_space c"
    by (simp add: dropWhile_eq_Nil_conv)
  have "dropWhile is_space s = []"
  proof (rule ccontr)
    assume ne: "dropWhile is_space s \<noteq> []"
    then have "\<not> is_space (hd (dropWhile is_space s))"
      by (rule hd_dropWhile)
    moreover have "hd (dropWhile is_space s) \<in> set (dropWhile is_space s)"
      using ne by (rule hd_in_set)
    ultimately show False
      using all by blast
  qed
  then show "\<forall>c \<in> set s. is_space c"
    by (simp add: dropWhile_eq_Nil_conv)
next
  assume "\<forall>c \<in> set s. is_space c"
  then have blank: "dropWhile is_space s = []"
    by (simp add: dropWhile_eq_Nil_conv)
  show "py_strip s = []"
    unfolding py_strip_def blank by simp
qed

section \<open>The genres of a renewal session\<close>

text \<open>
  C8. The Preference Deriver counts how often each genre string occurs across the
  session's entries, and its three genres are the first three of the genres ranked by
  count, larger first, genres of equal count in the order in which they were first
  seen.
\<close>

theorem top_genres_ranking:
  "map_of (genres_count new_movies) g
     = (if g \<in> set (session_genres new_movies)
        then Some (count_list (session_genres new_movies) g) else None)
   \<and> (\<exists>ranked. distinct ranked \<and> set ranked = set (session_genres new_movies)
         \<and> sorted_wrt (ranks_before (count_list (session_genres new_movies))
                         (session_genres new_movies)) ranked
         \<and> top_genres new_movies = take 3 ranked)"
proof -
  let ?es = "map (\<lambda>g. (g, 1::nat)) (session_genres new_movies)"
  have seen: "map fst ?es = session_genres new_movies"
    by (simp add: o_def)
  have counts: "total_of ?es = count_list (session_genres new_movies)"
    by (rule ext) (rule total_of_ones)
  show ?thesis
    using top3_tally_ranking [of ?es] tally_lookup [of ?es g]
    unfolding seen counts by (simp add: top_genres_def genres_count_def)
qed

theorem top_genres_ranking_witness:
  "session_genres sample_session
     = [''Drama'', ''Comedy'', ''Comedy'', ''Action'', ''Action'', ''Horror'', ''Horror'']
   \<and> map_of (genres_count sample_session) ''Comedy'' = Some 2
   \<and> top_genres sample_session = [''Comedy'', ''Action'', ''Horror'']"
proof -
  have seen: "session_genres sample_session
     = [''Drama'', ''Comedy'', ''Comedy'', ''Action'', ''Action'', ''Horror'', ''Horror'']"
    by (simp add: session_genres_def sample_session_def string_defs)
  have top: "top_genres sample_session = [''Comedy'', ''Action'', ''Horror'']"
    by (simp add: top_genres_def genres_count_def seen tally_def top3_def
        sorted_by_value_reverse_def)
  show ?thesis
    using top_genres_ranking [of sample_session "''Comedy''"] by (simp add: seen top)
qed

section \<open>The emotions of a text\<close>

text \<open>
  C9. For a text of blanks only \<^verbatim>\<open>analyze_emotions\<close> returns the empty list. For any
  other text and any list of label and score pairs the classifier returns, it returns
  at most three labels, no label twice: the first three of the lower-cased labels
  ranked by the sum of their scores, larger first, labels of equal sum in the order of
  their first occurrence in the classifier's output.
\<close>

theorem analyze_emotions_ranking:
  "((\<forall>c \<in> set text. is_space c) \<longrightarrow> analyze_emotions classifier text = [])
   \<and> (\<not> (\<forall>c \<in> set text. is_space c) \<longrightarrow>
        (\<exists>ranked. distinct ranked
           \<and> set ranked = set (map fst (lowered_scores (classifier text)))
           \<and> sorted_wrt (ranks_before (total_of (lowered_scores (classifier text)))
                           (map fst (lowered_scores (classifier text)))) ranked
           \<and> analyze_emotions classifier text = take 3 ranked))
   \<and> length (analyze_emotions classifier text) \<le> 3
   \<and> distinct (analyze_emotions classifier text)"
  using top3_tally_ranking [of "lowered_scores (classifier text)"]
  by (simp add: analyze_emotions_def emotion_counts_def strip_empty_iff length_top3
      distinct_top3_tally)

theorem analyze_emotions_ranking_witness:
  "analyze_emotions (emotion_classifier joyful) ''A joy'' = [''joy'', ''sadness'', ''anger'']
   \<and> analyze_emotions repeated_labels ''fun'' = [''joy'', ''sadness'']
   \<and> analyze_emotions repeated_labels ''   '' = []"
proof -
  have blank: "\<forall>c \<in> set ''   ''. is_space c"
    by (simp add: is_space_def)
  have repeated: "analyze_emotions repeated_labels ''fun'' = [''joy'', ''sadness'']"
    by (simp add: analyze_emotions_def emotion_counts_def lowered_scores_def tally_def top3_def
        sorted_by_value_reverse_def repeated_labels_def string_defs)
  show ?thesis
    using analyze_emotions_ranking [of "''   ''" repeated_labels]
      analyze_emotions_ranking [of "''fun''" repeated_labels] blank
    by (simp add: sample_emotions repeated)
qed

section \<open>Reading back stored preferences\<close>

lemma CR_not_LF: "CR \<noteq> LF"
  by (simp add: CR_def LF_def)

lemma LF_is_space: "is_space LF"
  by (simp add: is_space_def LF_def)

lemma universal_newlines_id: "CR \<notin> set s \<Longrightarrow> universal_newlines s = s"
  by (induction s rule: universal_newlines.induct) auto

lemma keepends_line: "LF \<notin> set l \<Longrightarrow> keepends (l @ LF # rest) = (l @ [LF]) # keepends rest"
  by (induction l) auto

lemma file_lines_three:
  assumes "CR \<notin> set l1 \<union> set l2 \<union> set l3" and "LF \<notin> set l1 \<union> set l2 \<union> set l3"
  shows "file_lines (l1 @ LF # l2 @ LF # l3 @ [LF]) = [l1 @ [LF], l2 @ [LF], l3 @ [LF]]"
proof -
  have "CR \<notin> set (l1 @ LF # l2 @ LF # l3 @ [LF])"
    using assms(1) CR_not_LF by auto
  then have "universal_newlines (l1 @ LF # l2 @ LF # l3 @ [LF]) = l1 @ LF # l2 @ LF # l3 @ [LF]"
    by (rule universal_newlines_id)
  then have "file_lines (l1 @ LF # l2 @ LF # l3 @ [LF]) = keepends (l1 @ LF # l2 @ LF # l3 @ [LF])"
    by (simp only: file_lines_def)
  also have "\<dots> = (l1 @ [LF]) # keepends (l2 @ LF # l3 @ [LF])"
    using assms(2) by (intro keepends_line) simp
  also have "keepends (l2 @ LF # l3 @ [LF]) = (l2 @ [LF]) # keepends (l3 @ [LF])"
    using assms(2) by (intro keepends_line) simp
  also have "keepends (l3 @ [LF]) = (l3 @ [LF]) # keepends []"
    using assms(2) by (intro keepends_line) simp
  finally show ?thesis by simp
qed

lemma dropWhile_rev_last: "s \<noteq> [] \<Longrightarrow> \<not> P (last s) \<Longrightarrow> dropWhile P (rev s) = rev s"
  by (cases s rule: rev_cases) simp_all

lemma strip_trimmed: "trimmed s \<Longrightarrow> py_strip s = s"
proof (cases s)
  case Nil
  then show ?thesis by (simp add: py_strip_def)
next
  case (Cons x xs)
  assume "trimmed s"
  then have first: "\<not> is_space x" and final: "\<not> is_space (last s)"
    using Cons by (auto simp: trimmed_def)
  have a: "dropWhile is_space s = s"
    using first Cons by simp
  have b: "dropWhile is_space (rev s) = rev s"
    using final Cons by (intro dropWhile_rev_last) simp_all
  show ?thesis
    unfolding py_strip_def a b by simp
qed

lemma strip_line: 
  assumes "l \<noteq> []" and "trimmed l"
  shows "py_strip (l @ [LF]) = l"
proof -
  obtain x xs where l: "l = x # xs"
    using assms(1) by (cases l) auto
  have first: "\<not> is_space x" and final: "\<not> is_space (last l)"
    using assms l by (auto simp: trimmed_def)
  have a: "dropWhile is_space (l @ [LF]) = l @ [LF]"
    using first l by simp
  have "dropWhile is_space (rev l) = rev l"
    using final assms(1) by (intro dropWhile_rev_last) simp_all
  then have b: "dropWhile is_space (rev (l @ [LF])) = rev l"
    using LF_is_space by simp
  show ?thesis
    unfolding py_strip_def a b by simp
qed

lemma split_piece:
  "c \<notin> set g \<Longrightarrow> py_split c (g @ c # rest) = g # py_split c rest"
  by (induction g) auto

lemma split_last_piece: "c \<notin> set g \<Longrightarrow> py_split c g = [g]"
  by (induction g) auto

lemma split_join:
  assumes "\<forall>g \<in> set gs. c \<notin> set g" and "gs \<noteq> []"
  shows "py_split c (py_join [c] gs) = gs"
  using assms
proof (induction gs rule: induct_list012)
  case 1
  then show ?case by simp
next
  case (2 x)
  then show ?case by (simp add: split_last_piece)
next
  case (3 x y zs)
  then show ?case by (simp add: split_piece)
qed

lemma set_py_join: "set (py_join sep gs) \<subseteq> set sep \<union> \<Union> (set ` set gs)"
  by (induction gs rule: induct_list012) auto

lemma join_ends:
  assumes "gs \<noteq> []" and "\<forall>g \<in> set gs. g \<noteq> []"
  shows "py_join sep gs \<noteq> [] \<and> hd (py_join sep gs) = hd (hd gs)
         \<and> last (py_join sep gs) = last (last gs)"
  using assms by (induction gs rule: induct_list012) auto

lemma trimmed_join: "\<forall>g \<in> set gs. plain_item g \<Longrightarrow> trimmed (py_join sep gs)"
proof (cases gs)
  case Nil
  then show ?thesis by (simp add: trimmed_def)
next
  case (Cons g gs')
  assume plain: "\<forall>g \<in> set gs. plain_item g"
  then have ne: "\<forall>g \<in> set gs. g \<noteq> []"
    by (simp add: plain_item_def)
  have "hd gs \<in> set gs" "last gs \<in> set gs"
    using Cons by simp_all
  then have "\<not> is_space (hd (hd gs))" "\<not> is_space (last (last gs))"
    using plain by (simp_all add: plain_item_def)
  then show ?thesis
    using join_ends [of gs sep] ne Cons by (simp add: trimmed_def)
qed

lemma comma_list_join:
  assumes "\<forall>g \<in> set gs. plain_item g"
  shows "comma_list (py_join '','' gs) = gs"
proof (cases "gs = []")
  case True
  then show ?thesis by (simp add: comma_list_def py_strip_def)
next
  case False
  have "\<forall>g \<in> set gs. CHR '','' \<notin> set g"
    using assms by (simp add: plain_item_def)
  then have pieces: "py_split CHR '','' (py_join '','' gs) = gs"
    using False by (intro split_join) simp_all
  have same: "py_strip g = g" if "g \<in> set gs" for g
    using assms that by (intro strip_trimmed) (simp add: trimmed_def plain_item_def)
  have kept: "filter (\<lambda>x. py_strip x \<noteq> []) gs = gs"
    using assms same by (simp add: plain_item_def filter_id_conv)
  have "map py_strip gs = gs"
    using same by (simp add: map_idI)
  then show ?thesis
    by (simp add: comma_list_def pieces kept)
qed

lemma replace_absent:
  assumes "old \<noteq> []" and "\<not> sublist old s"
  shows "py_replace old new s = s"
  using assms(2)
proof (induction s)
  case Nil
  show ?case using assms(1) by (subst py_replace.simps) simp
next
  case (Cons x xs)
  then have no: "\<not> prefix old (x # xs)" and rest: "\<not> sublist old xs"
    by (simp_all add: sublist_Cons_right)
  have "py_replace old new (x # xs) = x # py_replace old new xs"
    using assms(1) no by (subst py_replace.simps) simp
  then show ?case
    using Cons.IH rest by simp
qed

lemma replace_tag:
  assumes "old \<noteq> []" and "\<not> sublist old s"
  shows "py_replace old [] (old @ s) = s"
proof -
  have "py_replace old [] (old @ s) = py_replace old [] s"
    using assms(1) by (subst py_replace.simps) simp
  then show ?thesis
    using assms by (simp add: replace_absent)
qed

lemma sublist_across:
  assumes "sublist t (a @ c # b)" and "c \<notin> set t"
  shows "sublist t a \<or> sublist t b"
proof -
  consider "sublist t a" | "sublist t (c # b)"
    | xs1 xs2 where "t = xs1 @ xs2" "suffix xs1 a" "prefix xs2 (c # b)"
    using assms(1) unfolding sublist_append by blast
  then show ?thesis
  proof cases
    case 1
    then show ?thesis by simp
  next
    case 2
    then have "prefix t (c # b) \<or> sublist t b"
      by (simp add: sublist_Cons_right)
    moreover have "t = []" if "prefix t (c # b)"
      using that assms(2) by (cases t) auto
    ultimately show ?thesis by auto
  next
    case 3
    have "xs2 = []"
      using 3(1,3) assms(2) by (cases xs2) auto
    then have "suffix t a"
      using 3 by simp
    then show ?thesis
      by (simp add: suffix_imp_sublist)
  qed
qed

lemma sublist_join:
  assumes "sublist t (py_join [c] gs)" and "c \<notin> set t" and "t \<noteq> []"
  shows "\<exists>g \<in> set gs. sublist t g"
  using assms(1)
proof (induction gs rule: induct_list012)
  case 1
  then show ?case using assms(3) by simp
next
  case (2 x)
  then show ?case by simp
next
  case (3 x y zs)
  then have "sublist t (x @ c # py_join [c] (y # zs))"
    by simp
  then have "sublist t x \<or> sublist t (py_join [c] (y # zs))"
    using assms(2) by (rule sublist_across)
  then show ?case
    using 3 by auto
qed




lemma not_sublist_join:
  assumes "\<forall>g \<in> set gs. \<not> sublist t g" and "c \<notin> set t" and "t \<noteq> []"
  shows "\<not> sublist t (py_join [c] gs)"
  using sublist_join [of t c gs] assms by blast

lemma tagged_line:
  assumes tag: "tag \<noteq> []" "\<not> is_space (hd tag)" "\<not> is_space (last tag)"
    and body: "trimmed s" "\<not> sublist tag s"
  shows "py_strip ((tag @ s) @ [LF]) = tag @ s"
    and "py_strip (py_replace tag [] (tag @ s)) = s"
proof -
  have "trimmed (tag @ s)"
    using tag body(1) by (cases "s = []") (auto simp: trimmed_def)
  then show "py_strip ((tag @ s) @ [LF]) = tag @ s"
    using tag(1) by (intro strip_line) simp_all
  show "py_strip (py_replace tag [] (tag @ s)) = s"
    using tag(1) body by (simp add: replace_tag strip_trimmed)
qed

lemma genres_line:
  assumes "trimmed s" and "\<not> sublist ''Genres:'' s"
  shows "read_preferences_line p ((''Genres:'' @ s) @ [LF]) = p\<lparr>Genres := comma_list s\<rparr>"
proof -
  have tag: "''Genres:'' \<noteq> []" "\<not> is_space (hd ''Genres:'')" "\<not> is_space (last ''Genres:'')"
    by (simp_all add: is_space_def)
  note line = tagged_line [OF tag assms]
  show ?thesis
    unfolding read_preferences_line_def line Let_def by simp
qed

lemma emotions_line:
  assumes "trimmed s" and "\<not> sublist ''Emotions:'' s"
  shows "read_preferences_line p ((''Emotions:'' @ s) @ [LF]) = p\<lparr>Emotions := comma_list s\<rparr>"
proof -
  have tag: "''Emotions:'' \<noteq> []" "\<not> is_space (hd ''Emotions:'')"
      "\<not> is_space (last ''Emotions:'')"
    by (simp_all add: is_space_def)
  note line = tagged_line [OF tag assms]
  show ?thesis
    unfolding read_preferences_line_def line Let_def by simp
qed

lemma year_line:
  assumes "trimmed s" and "\<not> sublist ''Year:'' s"
  shows "read_preferences_line p ((''Year:'' @ s) @ [LF]) = p\<lparr>Year := s\<rparr>"
proof -
  have tag: "''Year:'' \<noteq> []" "\<not> is_space (hd ''Year:'')" "\<not> is_space (last ''Year:'')"
    by (simp_all add: is_space_def)
  note line = tagged_line [OF tag assms]
  show ?thesis
    unfolding read_preferences_line_def line Let_def by simp
qed


lemma year_band_storable:
  assumes "y \<in> set year_bands"
  shows "trimmed y" and "\<not> sublist ''Year:'' y" and "LF \<notin> set y" and "CR \<notin> set y"
  using assms
  by (auto simp: year_bands_def trimmed_def is_space_def sublist_Cons_right LF_def CR_def)

lemma joined_one_line:
  assumes "\<forall>g \<in> set gs. \<not> has_line_break g"
  shows "LF \<notin> set (py_join '','' gs)" and "CR \<notin> set (py_join '','' gs)"
proof -
  have "set (py_join '','' gs) \<subseteq> {CHR '',''} \<union> \<Union> (set ` set gs)"
    using set_py_join [of "'',''" gs] by simp
  moreover have "LF \<noteq> CHR '',''" "CR \<noteq> CHR '',''"
    by (simp_all add: LF_def CR_def)
  ultimately show "LF \<notin> set (py_join '','' gs)" and "CR \<notin> set (py_join '','' gs)"
    using assms by (auto simp: has_line_break_def)
qed

lemmas read_write_defs = read_preferences_def write_preferences_def file_lines_def
  read_preferences_line_def comma_list_def py_replace.simps no_files_def

text \<open>
  C7 as the specification states it: every record with at most three genres and
  emotions, each a non-empty string without comma or surrounding blanks, and a valid
  band is read back as written. Two records that meet these conditions are not: a
  genre that contains the text \<open>Genres:\<close> loses it, because line 96 removes every
  occurrence of the tag and not only the leading one, and a genre with a line break in
  it is cut at the break.
\<close>

theorem preferences_round_trip_fails:
  "list_all plain_item (Genres tagged_genre) \<and> list_all plain_item (Emotions tagged_genre)
   \<and> length (Genres tagged_genre) \<le> 3 \<and> length (Emotions tagged_genre) \<le> 3
   \<and> Year tagged_genre \<in> set year_bands
   \<and> read_preferences (write_preferences tagged_genre no_files)
       = tagged_genre\<lparr>Genres := [''Drama'']\<rparr>
   \<and> read_preferences (write_preferences tagged_genre no_files) \<noteq> tagged_genre
   \<and> list_all plain_item (Genres two_line_genre) \<and> list_all plain_item (Emotions two_line_genre)
   \<and> length (Genres two_line_genre) \<le> 3 \<and> length (Emotions two_line_genre) \<le> 3
   \<and> Year two_line_genre \<in> set year_bands
   \<and> read_preferences (write_preferences two_line_genre no_files)
       = two_line_genre\<lparr>Genres := [''Film'']\<rparr>
   \<and> read_preferences (write_preferences two_line_genre no_files) \<noteq> two_line_genre"
proof -
  have tagged: "read_preferences (write_preferences tagged_genre no_files)
                  = tagged_genre\<lparr>Genres := [''Drama'']\<rparr>"
    by (simp add: read_write_defs tagged_genre_def string_defs)
  have two_lines: "read_preferences (write_preferences two_line_genre no_files)
                     = two_line_genre\<lparr>Genres := [''Film'']\<rparr>"
    by (simp add: read_write_defs two_line_genre_def string_defs)
  have conditions:
    "list_all plain_item (Genres tagged_genre)" "list_all plain_item (Emotions tagged_genre)"
    "list_all plain_item (Genres two_line_genre)" "list_all plain_item (Emotions two_line_genre)"
    by (simp_all add: tagged_genre_def two_line_genre_def plain_item_def is_space_def LF_def)
  show ?thesis
    unfolding tagged two_lines
    by (simp add: conditions) (simp add: tagged_genre_def two_line_genre_def year_bands_def LF_def)
qed

text \<open>
  C7, amended. A record whose genres and emotions are non-empty strings without comma,
  surrounding blanks or line break, none of which contains the tag of its own line
  (\<open>Genres:\<close>, \<open>Emotions:\<close>), and whose band is one of the band strings, is read back
  exactly as it was written, whatever the files held before.
\<close>

theorem preferences_round_trip:
  assumes "\<forall>g \<in> set (Genres p). storable_item ''Genres:'' g"
    and "\<forall>e \<in> set (Emotions p). storable_item ''Emotions:'' e"
    and "Year p \<in> set year_bands"
  shows "read_preferences (write_preferences p fs) = p"
proof -
  define J1 where "J1 = py_join '','' (Genres p)"
  define J2 where "J2 = py_join '','' (Emotions p)"
  define Y where "Y = Year p"
  have plain1: "\<forall>g \<in> set (Genres p). plain_item g"
    and plain2: "\<forall>e \<in> set (Emotions p). plain_item e"
    using assms(1,2) by (simp_all add: storable_item_def)
  have t1: "trimmed J1" and t2: "trimmed J2"
    unfolding J1_def J2_def using plain1 plain2 by (simp_all add: trimmed_join)
  have n1: "\<not> sublist ''Genres:'' J1"
    unfolding J1_def using assms(1) by (intro not_sublist_join) (simp_all add: storable_item_def)
  have n2: "\<not> sublist ''Emotions:'' J2"
    unfolding J2_def using assms(2) by (intro not_sublist_join) (simp_all add: storable_item_def)
  have b1: "LF \<notin> set J1" "CR \<notin> set J1"
    unfolding J1_def using assms(1) by (simp_all add: joined_one_line storable_item_def)
  have b2: "LF \<notin> set J2" "CR \<notin> set J2"
    unfolding J2_def using assms(2) by (simp_all add: joined_one_line storable_item_def)
  have y: "trimmed Y" "\<not> sublist ''Year:'' Y" "LF \<notin> set Y" "CR \<notin> set Y"
    unfolding Y_def using assms(3) by (simp_all add: year_band_storable)
  let ?l1 = "''Genres:'' @ J1" and ?l2 = "''Emotions:'' @ J2" and ?l3 = "''Year:'' @ Y"
  have "CR \<notin> set ?l1 \<union> set ?l2 \<union> set ?l3" "LF \<notin> set ?l1 \<union> set ?l2 \<union> set ?l3"
    using b1 b2 y(3,4) by (simp_all add: LF_def CR_def)
  then have lines: "file_lines (?l1 @ LF # ?l2 @ LF # ?l3 @ [LF])
                      = [?l1 @ [LF], ?l2 @ [LF], ?l3 @ [LF]]"
    by (rule file_lines_three)
  have content: "preferences_file (write_preferences p fs)
                   = Some (?l1 @ LF # ?l2 @ LF # ?l3 @ [LF])"
    by (simp add: write_preferences_def J1_def J2_def Y_def)
  have "read_preferences (write_preferences p fs)
          = \<lparr>Genres = [], Emotions = [], Year = []\<rparr>
              \<lparr>Genres := comma_list J1\<rparr>\<lparr>Emotions := comma_list J2\<rparr>\<lparr>Year := Y\<rparr>"
    unfolding read_preferences_def Let_def content option.case lines foldl.simps
      genres_line [OF t1 n1] emotions_line [OF t2 n2] year_line [OF y(1,2)] ..
  also have "\<dots> = p"
    using plain1 plain2 by (simp add: J1_def J2_def Y_def comma_list_join)
  finally show ?thesis .
qed


theorem preferences_round_trip_witness:
  "list_all (storable_item ''Genres:'') (Genres sci_fi_prefs)
   \<and> list_all (storable_item ''Emotions:'') (Emotions sci_fi_prefs)
   \<and> Year sci_fi_prefs \<in> set year_bands
   \<and> read_preferences (write_preferences sci_fi_prefs no_files) = sci_fi_prefs"
proof -
  have genres: "\<forall>g \<in> set (Genres sci_fi_prefs). storable_item ''Genres:'' g"
    by (simp add: sci_fi_prefs_def storable_item_def plain_item_def has_line_break_def
        sublist_Cons_right is_space_def LF_def CR_def)
  have emotions: "\<forall>e \<in> set (Emotions sci_fi_prefs). storable_item ''Emotions:'' e"
    by (simp add: sci_fi_prefs_def storable_item_def plain_item_def has_line_break_def
        sublist_Cons_right is_space_def LF_def CR_def)
  have band: "Year sci_fi_prefs \<in> set year_bands"
    by (simp add: sci_fi_prefs_def year_bands_def)
  show ?thesis
    using preferences_round_trip [OF genres emotions band, of no_files] genres emotions band
    by (simp add: list_all_iff)
qed


end
